theory Spec2Isabelle
  imports Complex_Main
begin

section \<open>Values and exceptions of the Python program\<close>

text \<open>
  The three clients (\<^verbatim>\<open>ApiOpenAI.py\<close>, \<^verbatim>\<open>ApiAnthropic.py\<close>, \<^verbatim>\<open>ApiPerplexity.py\<close>) send
  JSON payloads and hand back parsed JSON bodies. A parsed body is a Python value built
  from \<^verbatim>\<open>None\<close>, booleans, numbers, strings, lists and dicts with string keys. A dict keeps
  its insertion order, so it is an association list; a Python \<^verbatim>\<open>float\<close> is modelled by the
  rational it denotes. The floats of the settings are finite (a NaN or an infinity given
  as a setting is outside the model); the infinities a product overflows to are values of
  the delays, below.
\<close>

datatype json =
    JNull
  | JBool bool
  | JInt int
  | JFloat rat
  | JStr string
  | JArr "json list"
  | JObj "(string \<times> json) list"

text \<open>
  The exceptions the code can meet, by their Python class. \<open>HTTPStatusError\<close> carries
  \<^verbatim>\<open>exc.response.status_code\<close>, \<open>KeyError\<close> the key that was not found. In httpx
  \<open>TimeoutException\<close> is a subclass of \<open>RequestError\<close>, and \<open>HTTPStatusError\<close> is not.
\<close>

datatype py_exception =
    HTTPStatusError int
  | RequestError
  | TimeoutException
  | RuntimeError
  | JSONDecodeError
  | OverflowError
  | UnicodeEncodeError
  | KeyError json
  | IndexError
  | TypeError
  | ValueError string

fun class_name :: "py_exception \<Rightarrow> string" where
  "class_name (HTTPStatusError _) = ''HTTPStatusError''"
| "class_name RequestError = ''RequestError''"
| "class_name TimeoutException = ''TimeoutException''"
| "class_name RuntimeError = ''RuntimeError''"
| "class_name JSONDecodeError = ''JSONDecodeError''"
| "class_name OverflowError = ''OverflowError''"
| "class_name UnicodeEncodeError = ''UnicodeEncodeError''"
| "class_name (KeyError _) = ''KeyError''"
| "class_name IndexError = ''IndexError''"
| "class_name TypeError = ''TypeError''"
| "class_name (ValueError _) = ''ValueError''"

text \<open>A call either raises (\<open>Inl\<close>) or returns (\<open>Inr\<close>).\<close>

type_synonym 'a result = "py_exception + 'a"

subsection \<open>Dicts\<close>

text \<open>
  \<^verbatim>\<open>d[k] = v\<close>: an existing key keeps its place and takes the new value, a new key goes
  to the end. \<^verbatim>\<open>d.update(kw)\<close> does that for every item of \<open>kw\<close> in turn.
\<close>

fun dict_set :: "string \<Rightarrow> json \<Rightarrow> (string \<times> json) list \<Rightarrow> (string \<times> json) list" where
  "dict_set k v [] = [(k, v)]"
| "dict_set k v ((k', v') # d) = (if k' = k then (k, v) # d else (k', v') # dict_set k v d)"

fun dict_update :: "(string \<times> json) list \<Rightarrow> (string \<times> json) list \<Rightarrow> (string \<times> json) list" where
  "dict_update d [] = d"
| "dict_update d ((k, v) # kw) = dict_update (dict_set k v d) kw"

text \<open>
  Subscripting as Python does it on a parsed body. \<^verbatim>\<open>v['key']\<close> works on a dict only: a
  missing key is a \<open>KeyError\<close>, every other value is a \<open>TypeError\<close>. \<^verbatim>\<open>v[i]\<close> with an
  integer works on a list and on a string (negative indices count from the end, out of
  range is an \<open>IndexError\<close>); on a dict it is a \<open>KeyError\<close>, since the keys of a parsed
  object are strings; on every other value it is a \<open>TypeError\<close>. A string is indexed here
  by bytes where Python indexes by code points; the clients never index a string to use
  the character.
\<close>

fun getitem_str :: "json \<Rightarrow> string \<Rightarrow> json result" where
  "getitem_str (JObj d) k = (case map_of d k of None \<Rightarrow> Inl (KeyError (JStr k)) | Some v \<Rightarrow> Inr v)"
| "getitem_str _ k = Inl TypeError"

definition list_index :: "'a list \<Rightarrow> int \<Rightarrow> 'a result" where
  "list_index xs i =
     (if 0 \<le> i \<and> i < int (length xs) then Inr (xs ! nat i)
      else if i < 0 \<and> - int (length xs) \<le> i then Inr (xs ! nat (int (length xs) + i))
      else Inl IndexError)"

fun getitem_int :: "json \<Rightarrow> int \<Rightarrow> json result" where
  "getitem_int (JArr xs) i = list_index xs i"
| "getitem_int (JStr s) i = (case list_index s i of Inl e \<Rightarrow> Inl e | Inr c \<Rightarrow> Inr (JStr [c]))"
| "getitem_int (JObj d) i = Inl (KeyError (JInt i))"
| "getitem_int _ i = Inl TypeError"

section \<open>The HTTP client the three classes own\<close>

text \<open>
  Every client builds one \<^verbatim>\<open>httpx.AsyncClient\<close> in \<^verbatim>\<open>__init__\<close> and keeps it in
  \<^verbatim>\<open>self._client\<close>. The code uses two of its methods: \<^verbatim>\<open>request(method, path, json=...,
  params=...)\<close> and \<^verbatim>\<open>aclose()\<close>. The base URL, the timeout and the headers are given to the
  constructor and never read back by the clients, so the state of the HTTP client is
  whether it is closed and what it has sent.
\<close>

record request =
  req_method :: string
  req_path :: string
  req_json :: "(string \<times> json) list option"
  req_params :: "(string \<times> json) list option"

record http_client =
  is_closed :: bool
  sent :: "request list"

text \<open>
  The network is a parameter of the model: a \<open>server\<close> tells what the three statements of
  the \<^verbatim>\<open>try\<close> block (\<^verbatim>\<open>request\<close>, \<^verbatim>\<open>raise_for_status\<close>, \<^verbatim>\<open>json\<close>) come to for the request
  that was sent last, given all the requests sent before it: the parsed body, or the
  exception raised. \<open>sent\<close> records the requests that went out, oldest first.

  The library's own behaviour on a closed client is part of the model of
  \<^verbatim>\<open>httpx.AsyncClient\<close>: \<^verbatim>\<open>aclose()\<close> marks the client closed and may be repeated, and
  \<^verbatim>\<open>request\<close> on a closed client raises \<^verbatim>\<open>RuntimeError("Cannot send a request, as the
  client has been closed.")\<close> before anything is sent. The classes of the repository add
  no check of their own.
\<close>

type_synonym server = "request list \<Rightarrow> json result"

text \<open>
  The constructor \<^verbatim>\<open>httpx.AsyncClient(base_url=..., timeout=..., headers=...)\<close> can raise:
  \<^verbatim>\<open>InvalidURL\<close> for a base URL the library cannot parse, \<^verbatim>\<open>UnicodeEncodeError\<close> for a header
  value outside ASCII, and whatever setting up the transport raises. What it raises for
  given arguments, if anything, is a parameter of the model; when it raises nothing the
  client is open and has sent nothing.
\<close>

type_synonym httpx = "string \<Rightarrow> rat \<Rightarrow> (string \<times> string) list \<Rightarrow> py_exception option"

definition AsyncClient ::
  "httpx \<Rightarrow> string \<Rightarrow> rat \<Rightarrow> (string \<times> string) list \<Rightarrow> http_client result" where
  "AsyncClient lib url tmo headers =
     (case lib url tmo headers of
        Some e \<Rightarrow> Inl e
      | None \<Rightarrow> Inr \<lparr>is_closed = False, sent = []\<rparr>)"

text \<open>
  One check of the library that depends on the settings of this repository: a header name
  or value is encoded as ASCII, so a credential with a character outside ASCII makes the
  constructor raise. Strings are bytes here (UTF-8): such a character is a byte of 128 or
  more.
\<close>

definition is_ascii :: "string \<Rightarrow> bool" where
  "is_ascii s = list_all (\<lambda>c. (of_char c :: nat) < 128) s"

definition header_check :: httpx where
  "header_check url tmo headers =
     (if list_all (\<lambda>(k, v). is_ascii k \<and> is_ascii v) headers then None
      else Some UnicodeEncodeError)"

definition aclose :: "http_client \<Rightarrow> http_client" where
  "aclose h = h\<lparr>is_closed := True\<rparr>"

definition http_request :: "server \<Rightarrow> http_client \<Rightarrow> request \<Rightarrow> json result \<times> http_client" where
  "http_request srv h req =
     (if is_closed h then (Inl RuntimeError, h)
      else (srv (sent h @ [req]), h\<lparr>sent := sent h @ [req]\<rparr>))"

section \<open>The retry loop\<close>

text \<open>
  \<^verbatim>\<open>_request\<close> is the same loop in the three classes:
  \<^verbatim>\<open>
  for attempt in range(self.max_retries + 1):
      try:
          resp = await self._client.request(method, path, json=json, params=params)
          resp.raise_for_status()
          return resp.json()
      except httpx.HTTPStatusError as exc:
          status = exc.response.status_code
          if attempt < self.max_retries and (status == 429 or 500 <= status < 600):
              backoff = self.backoff_factor * (2 ** attempt)
              logger.warning(f"... retrying after {backoff:.2f}s")
              await asyncio.sleep(backoff)
              continue
          raise
      except (httpx.RequestError, httpx.TimeoutException) as exc:
          if attempt < self.max_retries:
              backoff = self.backoff_factor * (2 ** attempt)
              logger.warning(f"... retrying after {backoff:.2f}s")
              await asyncio.sleep(backoff)
              continue
          raise
  \<close>
  The classes differ in the type of \<^verbatim>\<open>self.backoff_factor\<close> (a \<^verbatim>\<open>float\<close> in
  \<open>OpenAIClient\<close>, an \<^verbatim>\<open>int\<close> in the other two), so the two lines that compute and print
  the delay are the parameter \<open>backoff\<close> of the loop: the delay to sleep, or the exception
  those lines raise. The loop gives the outcome of \<^verbatim>\<open>_request\<close>, the HTTP client after the
  call, and the delays passed to \<^verbatim>\<open>asyncio.sleep\<close>, in order. A loop that runs
  out of attempts without returning falls off the end of the function: Python returns
  \<^verbatim>\<open>None\<close>.
\<close>

definition retriable_status :: "int \<Rightarrow> bool" where
  "retriable_status status \<longleftrightarrow> status = 429 \<or> (500 \<le> status \<and> status < 600)"

text \<open>
  The two \<^verbatim>\<open>except\<close> clauses: whether an exception raised in the \<^verbatim>\<open>try\<close> block at this
  attempt is caught and retried. A caught exception that is not retried is re-raised by
  the bare \<^verbatim>\<open>raise\<close>; an exception of any other class is not caught at all.
\<close>

fun retried :: "int \<Rightarrow> int \<Rightarrow> py_exception \<Rightarrow> bool" where
  "retried attempt max_retries (HTTPStatusError status) =
     (attempt < max_retries \<and> retriable_status status)"
| "retried attempt max_retries RequestError = (attempt < max_retries)"
| "retried attempt max_retries TimeoutException = (attempt < max_retries)"
| "retried attempt max_retries _ = False"

text \<open>
  The failures the clauses retry while attempts remain: \<^verbatim>\<open>HTTPStatusError\<close> with status 429
  or 500..599, and the network errors.
\<close>

fun retriable_failure :: "py_exception \<Rightarrow> bool" where
  "retriable_failure (HTTPStatusError status) = retriable_status status"
| "retriable_failure RequestError = True"
| "retriable_failure TimeoutException = True"
| "retriable_failure _ = False"

text \<open>
  A delay is a Python number: finite, or one of the infinities a float product overflows
  to. \<^verbatim>\<open>asyncio.sleep(delay)\<close> returns for every finite delay and at once for a delay that is
  not positive; with \<^verbatim>\<open>inf\<close> its timer never fires, so the call never returns and neither
  does \<^verbatim>\<open>_request\<close>. A call that never returns has the outcome \<open>None\<close>; \<open>Some\<close> holds what a
  call returns or raises.
\<close>

datatype py_float = Finite rat | PosInf | NegInf

fun request_loop ::
  "server \<Rightarrow> (int \<Rightarrow> py_float result) \<Rightarrow> int \<Rightarrow> request \<Rightarrow> int list \<Rightarrow> http_client
     \<Rightarrow> json result option \<times> http_client \<times> py_float list" where
  "request_loop srv backoff max_retries req [] h = (Some (Inr JNull), h, [])"
| "request_loop srv backoff max_retries req (attempt # attempts) h =
     (case http_request srv h req of
        (Inr body, h') \<Rightarrow> (Some (Inr body), h', [])
      | (Inl exc, h') \<Rightarrow>
          if retried attempt max_retries exc then
            (case backoff attempt of
               Inl e \<Rightarrow> (Some (Inl e), h', [])
             | Inr delay \<Rightarrow>
                 if delay = PosInf then (None, h', [delay])
                 else
                   (case request_loop srv backoff max_retries req attempts h' of
                      (r, h'', delays) \<Rightarrow> (r, h'', delay # delays)))
          else (Some (Inl exc), h', []))"

subsection \<open>The delay before a retry\<close>

text \<open>
  Python converts an \<^verbatim>\<open>int\<close> to a \<^verbatim>\<open>float\<close> when it multiplies a \<^verbatim>\<open>float\<close> by it and when
  it formats it with \<^verbatim>\<open>.2f\<close>. The conversion raises \<^verbatim>\<open>OverflowError: int too large to
  convert to float\<close> when the integer rounds to \<open>2 ^ 1024\<close> or beyond. The rounding of an
  integer of more than 53 bits is not modelled: the clients convert powers of two only
  (exact), or use the conversion for a log line only.
\<close>

definition float_of_int :: "int \<Rightarrow> rat result" where
  "float_of_int i =
     (if 2 ^ 1024 - 2 ^ 970 \<le> \<bar>i\<bar> then Inl OverflowError else Inr (of_int i))"

text \<open>
  \<open>OpenAIClient\<close>: \<^verbatim>\<open>self.backoff_factor\<close> is a \<^verbatim>\<open>float\<close>, so
  \<^verbatim>\<open>self.backoff_factor * (2 ** attempt)\<close> converts the power and multiplies. The product
  of two floats never raises: it is the exact product when that is a float (as the product
  of a float and a power of two is, while it stays in range), and an infinity when the
  exact product rounds to \<open>2 ^ 1024\<close> or beyond.
\<close>

definition float_of_product :: "rat \<Rightarrow> py_float" where
  "float_of_product x =
     (if 2 ^ 1024 - 2 ^ 970 \<le> x then PosInf
      else if x \<le> - (2 ^ 1024 - 2 ^ 970) then NegInf
      else Finite x)"

definition backoff_float :: "rat \<Rightarrow> int \<Rightarrow> py_float result" where
  "backoff_float backoff_factor attempt =
     (case float_of_int (2 ^ nat attempt) of
        Inl e \<Rightarrow> Inl e
      | Inr p \<Rightarrow> Inr (float_of_product (backoff_factor * p)))"

text \<open>
  \<open>AnthropicClient\<close> and \<open>PerplexityClient\<close>: \<^verbatim>\<open>self.backoff_factor\<close> is an \<^verbatim>\<open>int\<close>, the
  product is an exact integer, and the log line's \<^verbatim>\<open>{backoff:.2f}\<close> converts it.
\<close>

definition backoff_int :: "int \<Rightarrow> int \<Rightarrow> py_float result" where
  "backoff_int backoff_factor attempt =
     (let backoff = backoff_factor * 2 ^ nat attempt
      in case float_of_int backoff of
           Inl e \<Rightarrow> Inl e
         | Inr _ \<Rightarrow> Inr (Finite (of_int backoff)))"

text \<open>\<^verbatim>\<open>int(x)\<close> of a float truncates towards zero.\<close>

definition py_int :: "rat \<Rightarrow> int" where
  "py_int x = (if 0 \<le> x then \<lfloor>x\<rfloor> else \<lceil>x\<rceil>)"

section \<open>Settings\<close>

text \<open>
  \<^verbatim>\<open>ConfigOpenAI.py\<close>, \<^verbatim>\<open>ConfigAnthropic.py\<close>, \<^verbatim>\<open>ConfigPerplexity.py\<close>: pydantic models with
  the same five fields; \<open>AnthropicSettings\<close> adds \<open>version\<close>, \<open>PerplexitySettings\<close> adds
  \<open>poll_interval\<close>. No field carries a constraint: \<open>max_retries\<close> is any \<^verbatim>\<open>int\<close>,
  \<open>backoff_factor\<close> any \<^verbatim>\<open>float\<close>. A constructor is given the field values after pydantic
  has filled in the defaults; the default of \<open>api_key\<close> is the empty string, so an
  \<open>api_key\<close> that was not passed and one passed as \<^verbatim>\<open>""\<close> are the same input. The process
  environment is a map from names to values. The validator raises \<^verbatim>\<open>ValueError\<close>; pydantic
  hands it to the caller of the constructor inside its \<^verbatim>\<open>ValidationError\<close>, itself a
  \<^verbatim>\<open>ValueError\<close>.
\<close>

record provider_settings =
  api_key :: string
  base_url :: string
  timeout :: rat
  max_retries :: int
  backoff_factor :: rat

record AnthropicSettings = provider_settings +
  version :: string

record PerplexitySettings = provider_settings +
  poll_interval :: rat

definition getenv :: "(string \<rightharpoonup> string) \<Rightarrow> string \<Rightarrow> string \<Rightarrow> string" where
  "getenv env name dflt = (case env name of None \<Rightarrow> dflt | Some v \<Rightarrow> v)"

text \<open>
  The \<^verbatim>\<open>model_validator(mode='after')\<close> of each class, which is all its constructor runs
  beyond storing the fields:
  \<^verbatim>\<open>
  if not self.api_key:
      self.api_key = os.getenv('OPENAI_API_KEY', '')
  if not self.api_key:
      raise ValueError("OPENAI_API_KEY must be provided either as parameter or environment variable")
  return self
  \<close>
\<close>

definition OpenAISettings_validate_api_key ::
  "(string \<rightharpoonup> string) \<Rightarrow> provider_settings \<Rightarrow> provider_settings result" where
  "OpenAISettings_validate_api_key env self =
     (let self1 = (if api_key self = [] then self\<lparr>api_key := getenv env ''OPENAI_API_KEY'' []\<rparr>
                   else self)
      in if api_key self1 = []
         then Inl (ValueError ''OPENAI_API_KEY must be provided either as parameter or environment variable'')
         else Inr self1)"

definition AnthropicSettings_validate_api_key ::
  "(string \<rightharpoonup> string) \<Rightarrow> AnthropicSettings \<Rightarrow> AnthropicSettings result" where
  "AnthropicSettings_validate_api_key env self =
     (let self1 = (if api_key self = [] then self\<lparr>api_key := getenv env ''ANTHROPIC_API_KEY'' []\<rparr>
                   else self)
      in if api_key self1 = []
         then Inl (ValueError ''ANTHROPIC_API_KEY must be provided either as parameter or environment variable'')
         else Inr self1)"

definition PerplexitySettings_validate_api_key ::
  "(string \<rightharpoonup> string) \<Rightarrow> PerplexitySettings \<Rightarrow> PerplexitySettings result" where
  "PerplexitySettings_validate_api_key env self =
     (let self1 = (if api_key self = [] then self\<lparr>api_key := getenv env ''PPLX_API_KEY'' []\<rparr>
                   else self)
      in if api_key self1 = []
         then Inl (ValueError ''PPLX_API_KEY must be provided either as parameter or environment variable'')
         else Inr self1)"

text \<open>
  A constructor call: the fields, then the validator. The fields of a missing argument
  are the class's defaults (read from the environment when the module is imported).
\<close>

definition OpenAISettings_init ::
  "(string \<rightharpoonup> string) \<Rightarrow> provider_settings \<Rightarrow> provider_settings result" where
  "OpenAISettings_init env args = OpenAISettings_validate_api_key env args"

definition AnthropicSettings_init ::
  "(string \<rightharpoonup> string) \<Rightarrow> AnthropicSettings \<Rightarrow> AnthropicSettings result" where
  "AnthropicSettings_init env args = AnthropicSettings_validate_api_key env args"

definition PerplexitySettings_init ::
  "(string \<rightharpoonup> string) \<Rightarrow> PerplexitySettings \<Rightarrow> PerplexitySettings result" where
  "PerplexitySettings_init env args = PerplexitySettings_validate_api_key env args"

text \<open>
  The defaults of the fields when no environment variable is set
  (\<^verbatim>\<open>os.getenv('OPENAI_MAX_RETRIES', '5')\<close> and so on).
\<close>

definition OpenAISettings_defaults :: provider_settings where
  "OpenAISettings_defaults = \<lparr>
     api_key = [], base_url = ''https://api.openai.com/v1/'', timeout = 120,
     max_retries = 5, backoff_factor = 2\<rparr>"

definition AnthropicSettings_defaults :: AnthropicSettings where
  "AnthropicSettings_defaults = \<lparr>
     api_key = [], base_url = ''https://api.anthropic.com/v1/'', timeout = 120,
     max_retries = 5, backoff_factor = 2, version = ''2023-06-01''\<rparr>"

definition PerplexitySettings_defaults :: PerplexitySettings where
  "PerplexitySettings_defaults = \<lparr>
     api_key = [], base_url = ''https://api.perplexity.ai/'', timeout = 120,
     max_retries = 5, backoff_factor = 2, poll_interval = 1\<rparr>"

section \<open>The clients\<close>

text \<open>
  The system prompt that \<open>OpenAIClient\<close> and \<open>PerplexityClient\<close> put first in the history
  and that \<open>AnthropicClient\<close> falls back to. Its apostrophe is U+2019, three bytes in UTF-8.
\<close>

definition default_system_prompt :: string where
  "default_system_prompt =
     ''You are an expert, wise, and playful AI mentor. '' @
     ''You explain technical and scientific ideas clearly, with curiosity and intelligence. '' @
     ''You never produce hallucinations; if unsure, you say you don'' @
       [CHR 0xE2, CHR 0x80, CHR 0x99] @ ''t know. '' @
     ''You encourage critical thinking, prompt questions, and rigor.''"

text \<open>
  Short names, for the lemmas, of the two kinds of entry the clients put in a history:
  \<^verbatim>\<open>{"role": "user", "content": query}\<close> and the system message.
\<close>

abbreviation user_turn :: "string \<Rightarrow> json" where
  "user_turn query \<equiv> JObj [(''role'', JStr ''user''), (''content'', JStr query)]"

abbreviation system_turn :: json where
  "system_turn \<equiv> JObj [(''role'', JStr ''system''), (''content'', JStr default_system_prompt)]"

subsection \<open>OpenAIClient\<close>

record OpenAIClient =
  oa_settings :: provider_settings
  oa_client :: http_client
  oa_max_retries :: int
  oa_backoff_factor :: rat
  oa_messages :: "json list"

text \<open>
  \<^verbatim>\<open>__init__(self, settings=None)\<close>: \<^verbatim>\<open>self.settings = settings or OpenAISettings()\<close>, so
  a missing \<open>settings\<close> is built from the defaults and can raise.
\<close>

definition OpenAIClient_init ::
  "httpx \<Rightarrow> (string \<rightharpoonup> string) \<Rightarrow> provider_settings \<Rightarrow> provider_settings option
     \<Rightarrow> OpenAIClient result" where
  "OpenAIClient_init lib env defaults settings =
     (case (case settings of Some s \<Rightarrow> Inr s | None \<Rightarrow> OpenAISettings_init env defaults) of
        Inl e \<Rightarrow> Inl e
      | Inr s \<Rightarrow>
          (case AsyncClient lib (base_url s) (timeout s)
                  [(''Authorization'', ''Bearer '' @ api_key s),
                   (''Content-Type'', ''application/json'')] of
             Inl e \<Rightarrow> Inl e
           | Inr h \<Rightarrow> Inr \<lparr>
               oa_settings = s,
               oa_client = h,
               oa_max_retries = max_retries s,
               oa_backoff_factor = backoff_factor s,
               oa_messages =
                 [JObj [(''role'', JStr ''system''), (''content'', JStr default_system_prompt)]]\<rparr>))"

definition OpenAIClient_request ::
  "server \<Rightarrow> OpenAIClient \<Rightarrow> string \<Rightarrow> string \<Rightarrow> (string \<times> json) list option
     \<Rightarrow> (string \<times> json) list option \<Rightarrow> json result option \<times> http_client \<times> py_float list" where
  "OpenAIClient_request srv self meth path js params =
     request_loop srv (backoff_float (oa_backoff_factor self)) (oa_max_retries self)
       \<lparr>req_method = meth, req_path = path, req_json = js, req_params = params\<rparr>
       [0..oa_max_retries self] (oa_client self)"

text \<open>
  \<^verbatim>\<open>
  self.messages.append({'role':'user', 'content': query})
  payload = {"model": model, "messages": self.messages, "temperature": temperature}
  payload.update(kwargs)
  result = await self._request("POST", self.settings.base_url + "chat/completions", json=payload)
  if return_only_answer:
      return result['choices'][0]['message']['content']
  return result
  \<close>
  A call gives its outcome (what it returns or raises, or \<open>None\<close> when it never returns), the
  client after the call, and the delays it slept.
\<close>

definition answer_of :: "json \<Rightarrow> json result" where
  "answer_of r =
     (case getitem_str r ''choices'' of Inl e \<Rightarrow> Inl e | Inr choices \<Rightarrow>
       (case getitem_int choices 0 of Inl e \<Rightarrow> Inl e | Inr choice \<Rightarrow>
         (case getitem_str choice ''message'' of Inl e \<Rightarrow> Inl e | Inr msg \<Rightarrow>
            getitem_str msg ''content'')))"

text \<open>
  The path \<^verbatim>\<open>choices[0].message.content\<close> read on the JSON value: the body is an object
  whose \<^verbatim>\<open>choices\<close> is an array, whose first element is an object, whose \<^verbatim>\<open>message\<close> is an
  object with a \<^verbatim>\<open>content\<close> entry. This is what the unwrapping is compared with; the code
  does not use it.
\<close>

fun answer_path :: "json \<Rightarrow> json option" where
  "answer_path (JObj d) =
     (case map_of d ''choices'' of
        Some (JArr (JObj choice # _)) \<Rightarrow>
          (case map_of choice ''message'' of
             Some (JObj msg) \<Rightarrow> map_of msg ''content''
           | _ \<Rightarrow> None)
      | _ \<Rightarrow> None)"
| "answer_path _ = None"

definition OpenAIClient_chat_completion ::
  "server \<Rightarrow> OpenAIClient \<Rightarrow> string \<Rightarrow> string \<Rightarrow> rat \<Rightarrow> bool \<Rightarrow> (string \<times> json) list
     \<Rightarrow> json result option \<times> OpenAIClient \<times> py_float list" where
  "OpenAIClient_chat_completion srv self query model temperature return_only_answer kwargs =
     (let self1 = self\<lparr>oa_messages := oa_messages self @
                        [JObj [(''role'', JStr ''user''), (''content'', JStr query)]]\<rparr>;
          payload = dict_update
            [(''model'', JStr model),
             (''messages'', JArr (oa_messages self1)),
             (''temperature'', JFloat temperature)] kwargs
      in case OpenAIClient_request srv self1 ''POST''
                (base_url (oa_settings self1) @ ''chat/completions'') (Some payload) None of
           (None, h, delays) \<Rightarrow> (None, self1\<lparr>oa_client := h\<rparr>, delays)
         | (Some (Inl e), h, delays) \<Rightarrow> (Some (Inl e), self1\<lparr>oa_client := h\<rparr>, delays)
         | (Some (Inr r), h, delays) \<Rightarrow>
             (Some (if return_only_answer then answer_of r else Inr r),
              self1\<lparr>oa_client := h\<rparr>, delays))"

text \<open>
  \<^verbatim>\<open>
  payload = {"model": model, "input": input}
  payload.update(kwargs)
  result = await self._request("POST", self.settings.base_url + "embeddings", json=payload)
  if return_only_embeddings:
      return result['data'][0]['embedding']
  return result
  \<close>
\<close>

definition embedding_of :: "json \<Rightarrow> json result" where
  "embedding_of r =
     (case getitem_str r ''data'' of Inl e \<Rightarrow> Inl e | Inr d \<Rightarrow>
       (case getitem_int d 0 of Inl e \<Rightarrow> Inl e | Inr item \<Rightarrow>
          getitem_str item ''embedding''))"

definition OpenAIClient_embeddings ::
  "server \<Rightarrow> OpenAIClient \<Rightarrow> string \<Rightarrow> string \<Rightarrow> bool \<Rightarrow> (string \<times> json) list
     \<Rightarrow> json result option \<times> OpenAIClient \<times> py_float list" where
  "OpenAIClient_embeddings srv self inp model return_only_embeddings kwargs =
     (let payload = dict_update [(''model'', JStr model), (''input'', JStr inp)] kwargs
      in case OpenAIClient_request srv self ''POST''
                (base_url (oa_settings self) @ ''embeddings'') (Some payload) None of
           (None, h, delays) \<Rightarrow> (None, self\<lparr>oa_client := h\<rparr>, delays)
         | (Some (Inl e), h, delays) \<Rightarrow> (Some (Inl e), self\<lparr>oa_client := h\<rparr>, delays)
         | (Some (Inr r), h, delays) \<Rightarrow>
             (Some (if return_only_embeddings then embedding_of r else Inr r),
              self\<lparr>oa_client := h\<rparr>, delays))"

text \<open>\<^verbatim>\<open>async def close(self): await self._client.aclose()\<close>\<close>

definition OpenAIClient_close :: "OpenAIClient \<Rightarrow> OpenAIClient" where
  "OpenAIClient_close self = self\<lparr>oa_client := aclose (oa_client self)\<rparr>"

subsection \<open>AnthropicClient\<close>

record AnthropicClient =
  an_system_prompt :: string
  an_settings :: AnthropicSettings
  an_client :: http_client
  an_max_retries :: int
  an_backoff_factor :: int
  an_messages :: "json list"

text \<open>
  \<^verbatim>\<open>
  def __init__(self, system_prompt: str = '', settings: Optional[AnthropicSettings] = None):
      self.system_prompt  = system_prompt or self._get_claude_system_prompt()
      self.settings       = settings or AnthropicSettings()
      self._client        = httpx.AsyncClient(
              base_url = str(self.settings.base_url) or "https://api.anthropic.com/v1/",
              timeout  = int(self.settings.timeout), headers = {...})
      self.max_retries    = int(self.settings.max_retries)
      self.backoff_factor = int(self.settings.backoff_factor)
      self.messages       = list()
  \<close>
  The backoff factor of the settings, a \<^verbatim>\<open>float\<close>, goes through \<^verbatim>\<open>int(...)\<close> here and in
  \<open>PerplexityClient\<close>; \<open>OpenAIClient\<close> keeps it with \<^verbatim>\<open>float(...)\<close>.
\<close>

definition AnthropicClient_init ::
  "httpx \<Rightarrow> (string \<rightharpoonup> string) \<Rightarrow> AnthropicSettings \<Rightarrow> string \<Rightarrow> AnthropicSettings option
     \<Rightarrow> AnthropicClient result" where
  "AnthropicClient_init lib env defaults system_prompt settings =
     (case (case settings of Some s \<Rightarrow> Inr s | None \<Rightarrow> AnthropicSettings_init env defaults) of
        Inl e \<Rightarrow> Inl e
      | Inr s \<Rightarrow>
          (case AsyncClient lib
                  (if base_url s = [] then ''https://api.anthropic.com/v1/'' else base_url s)
                  (of_int (py_int (timeout s)))
                  [(''x-api-key'', api_key s),
                   (''anthropic-version'', version s),
                   (''Content-Type'', ''application/json'')] of
             Inl e \<Rightarrow> Inl e
           | Inr h \<Rightarrow> Inr \<lparr>
               an_system_prompt =
                 (if system_prompt = [] then default_system_prompt else system_prompt),
               an_settings = s,
               an_client = h,
               an_max_retries = max_retries s,
               an_backoff_factor = py_int (backoff_factor s),
               an_messages = []\<rparr>))"

definition AnthropicClient_request ::
  "server \<Rightarrow> AnthropicClient \<Rightarrow> string \<Rightarrow> string \<Rightarrow> (string \<times> json) list option
     \<Rightarrow> json result option \<times> http_client \<times> py_float list" where
  "AnthropicClient_request srv self meth path js =
     request_loop srv (backoff_int (an_backoff_factor self)) (an_max_retries self)
       \<lparr>req_method = meth, req_path = path, req_json = js, req_params = None\<rparr>
       [0..an_max_retries self] (an_client self)"

text \<open>
  \<^verbatim>\<open>
  self.messages.append({"role": "user", "content": str(query)})
  payload = {"model": model, "system": self.system_prompt, "messages": self.messages}
  if max_tokens is not None:     payload["max_tokens"] = max_tokens
  if temperature is not None:    payload["temperature"] = temperature
  if stop_sequences is not None: payload["stop_sequences"] = stop_sequences
  payload.update(kwargs)
  result = await self._request("POST", str(self.settings.base_url) + "messages", json=payload)
  return result
  \<close>
\<close>

definition AnthropicClient_chat_completion ::
  "server \<Rightarrow> AnthropicClient \<Rightarrow> string \<Rightarrow> string \<Rightarrow> int option \<Rightarrow> rat option
     \<Rightarrow> string list option \<Rightarrow> (string \<times> json) list
     \<Rightarrow> json result option \<times> AnthropicClient \<times> py_float list" where
  "AnthropicClient_chat_completion srv self query model max_tokens temperature stop_sequences kwargs =
     (let self1 = self\<lparr>an_messages := an_messages self @
                        [JObj [(''role'', JStr ''user''), (''content'', JStr query)]]\<rparr>;
          payload0 = [(''model'', JStr model),
                      (''system'', JStr (an_system_prompt self1)),
                      (''messages'', JArr (an_messages self1))];
          payload1 = (case max_tokens of None \<Rightarrow> payload0
                      | Some n \<Rightarrow> dict_set ''max_tokens'' (JInt n) payload0);
          payload2 = (case temperature of None \<Rightarrow> payload1
                      | Some t \<Rightarrow> dict_set ''temperature'' (JFloat t) payload1);
          payload3 = (case stop_sequences of None \<Rightarrow> payload2
                      | Some ss \<Rightarrow> dict_set ''stop_sequences'' (JArr (map JStr ss)) payload2);
          payload = dict_update payload3 kwargs
      in case AnthropicClient_request srv self1 ''POST''
                (base_url (an_settings self1) @ ''messages'') (Some payload) of
           (r, h, delays) \<Rightarrow> (r, self1\<lparr>an_client := h\<rparr>, delays))"

definition AnthropicClient_close :: "AnthropicClient \<Rightarrow> AnthropicClient" where
  "AnthropicClient_close self = self\<lparr>an_client := aclose (an_client self)\<rparr>"

subsection \<open>PerplexityClient\<close>

record PerplexityClient =
  pp_settings :: PerplexitySettings
  pp_client :: http_client
  pp_max_retries :: int
  pp_backoff_factor :: int
  pp_poll_interval :: int
  pp_messages :: "json list"

definition PerplexityClient_init ::
  "httpx \<Rightarrow> (string \<rightharpoonup> string) \<Rightarrow> PerplexitySettings \<Rightarrow> PerplexitySettings option
     \<Rightarrow> PerplexityClient result" where
  "PerplexityClient_init lib env defaults settings =
     (case (case settings of Some s \<Rightarrow> Inr s | None \<Rightarrow> PerplexitySettings_init env defaults) of
        Inl e \<Rightarrow> Inl e
      | Inr s \<Rightarrow>
          (case AsyncClient lib (base_url s) (of_int (py_int (timeout s)))
                  [(''Accept'', ''application/json''),
                   (''Content-Type'', ''application/json''),
                   (''Authorization'', ''Bearer '' @ api_key s)] of
             Inl e \<Rightarrow> Inl e
           | Inr h \<Rightarrow> Inr \<lparr>
               pp_settings = s,
               pp_client = h,
               pp_max_retries = max_retries s,
               pp_backoff_factor = py_int (backoff_factor s),
               pp_poll_interval = py_int (poll_interval s),
               pp_messages =
                 [JObj [(''role'', JStr ''system''), (''content'', JStr default_system_prompt)]]\<rparr>))"

definition PerplexityClient_request ::
  "server \<Rightarrow> PerplexityClient \<Rightarrow> string \<Rightarrow> string \<Rightarrow> (string \<times> json) list option
     \<Rightarrow> json result option \<times> http_client \<times> py_float list" where
  "PerplexityClient_request srv self meth path js =
     request_loop srv (backoff_int (pp_backoff_factor self)) (pp_max_retries self)
       \<lparr>req_method = meth, req_path = path, req_json = js, req_params = None\<rparr>
       [0..pp_max_retries self] (pp_client self)"

text \<open>
  \<^verbatim>\<open>
  self.messages.append({"role": "user", "content": query})
  payload = {"model": model, "messages": self.messages}
  resp = await self._request("POST", self.settings.base_url + "chat/completions", json=payload)
  return resp
  \<close>
\<close>

definition PerplexityClient_chat_completion ::
  "server \<Rightarrow> PerplexityClient \<Rightarrow> string \<Rightarrow> string
     \<Rightarrow> json result option \<times> PerplexityClient \<times> py_float list" where
  "PerplexityClient_chat_completion srv self query model =
     (let self1 = self\<lparr>pp_messages := pp_messages self @
                        [JObj [(''role'', JStr ''user''), (''content'', JStr query)]]\<rparr>;
          payload = [(''model'', JStr model), (''messages'', JArr (pp_messages self1))]
      in case PerplexityClient_request srv self1 ''POST''
                (base_url (pp_settings self1) @ ''chat/completions'') (Some payload) of
           (r, h, delays) \<Rightarrow> (r, self1\<lparr>pp_client := h\<rparr>, delays))"

definition PerplexityClient_close :: "PerplexityClient \<Rightarrow> PerplexityClient" where
  "PerplexityClient_close self = self\<lparr>pp_client := aclose (pp_client self)\<rparr>"

section \<open>Sequences of calls on one instance\<close>

text \<open>
  The arguments of one \<^verbatim>\<open>chat_completion\<close> call, and a list of calls made one after the
  other on the same client, whatever each returns or raises. After a call that never
  returns there is no next call.
\<close>

record openai_call =
  oc_query :: string
  oc_model :: string
  oc_temperature :: rat
  oc_return_only_answer :: bool
  oc_kwargs :: "(string \<times> json) list"

definition OpenAIClient_call ::
  "server \<Rightarrow> OpenAIClient \<Rightarrow> openai_call
     \<Rightarrow> json result option \<times> OpenAIClient \<times> py_float list" where
  "OpenAIClient_call srv self x =
     OpenAIClient_chat_completion srv self (oc_query x) (oc_model x) (oc_temperature x)
       (oc_return_only_answer x) (oc_kwargs x)"

fun OpenAIClient_calls :: "server \<Rightarrow> OpenAIClient \<Rightarrow> openai_call list \<Rightarrow> OpenAIClient" where
  "OpenAIClient_calls srv self [] = self"
| "OpenAIClient_calls srv self (x # xs) =
     (case OpenAIClient_call srv self x of
        (None, self', delays) \<Rightarrow> self'
      | (Some r, self', delays) \<Rightarrow> OpenAIClient_calls srv self' xs)"

record anthropic_call =
  ac_query :: string
  ac_model :: string
  ac_max_tokens :: "int option"
  ac_temperature :: "rat option"
  ac_stop_sequences :: "string list option"
  ac_kwargs :: "(string \<times> json) list"

definition AnthropicClient_call ::
  "server \<Rightarrow> AnthropicClient \<Rightarrow> anthropic_call
     \<Rightarrow> json result option \<times> AnthropicClient \<times> py_float list" where
  "AnthropicClient_call srv self x =
     AnthropicClient_chat_completion srv self (ac_query x) (ac_model x) (ac_max_tokens x)
       (ac_temperature x) (ac_stop_sequences x) (ac_kwargs x)"

fun AnthropicClient_calls ::
  "server \<Rightarrow> AnthropicClient \<Rightarrow> anthropic_call list \<Rightarrow> AnthropicClient" where
  "AnthropicClient_calls srv self [] = self"
| "AnthropicClient_calls srv self (x # xs) =
     (case AnthropicClient_call srv self x of
        (None, self', delays) \<Rightarrow> self'
      | (Some r, self', delays) \<Rightarrow> AnthropicClient_calls srv self' xs)"

text \<open>
  The requests a call put on the wire: those in the log of the HTTP client after the
  call that were not there before it.
\<close>

definition new_requests :: "http_client \<Rightarrow> http_client \<Rightarrow> request list" where
  "new_requests before after = drop (length (sent before)) (sent after)"

text \<open>An entry of a request's JSON payload, by its key.\<close>

definition payload_field :: "request \<Rightarrow> string \<Rightarrow> json option" where
  "payload_field req k = (case req_json req of None \<Rightarrow> None | Some payload \<Rightarrow> map_of payload k)"

text \<open>
  Clients as their constructors build them from explicit settings, for the examples below;
  the library checks the headers.
\<close>

definition OpenAIClient_of :: "provider_settings \<Rightarrow> OpenAIClient" where
  "OpenAIClient_of s =
     projr (OpenAIClient_init header_check Map.empty OpenAISettings_defaults (Some s))"

definition AnthropicClient_of :: "string \<Rightarrow> AnthropicSettings \<Rightarrow> AnthropicClient" where
  "AnthropicClient_of system_prompt s =
     projr (AnthropicClient_init header_check Map.empty AnthropicSettings_defaults
              system_prompt (Some s))"

definition PerplexityClient_of :: "PerplexitySettings \<Rightarrow> PerplexityClient" where
  "PerplexityClient_of s =
     projr (PerplexityClient_init header_check Map.empty PerplexitySettings_defaults (Some s))"

section \<open>The retry loop, step by step\<close>

lemma http_request_closed: "is_closed h \<Longrightarrow> http_request srv h req = (Inl RuntimeError, h)"
  by (simp add: http_request_def)

lemma http_request_open:
  "\<not> is_closed h \<Longrightarrow> http_request srv h req = (srv (sent h @ [req]), h\<lparr>sent := sent h @ [req]\<rparr>)"
  by (simp add: http_request_def)

lemma request_loop_closed:
  "is_closed h \<Longrightarrow> request_loop srv backoff mr req (a # as) h = (Some (Inl RuntimeError), h, [])"
  by (simp add: http_request_closed)

lemma request_loop_raise:
  assumes "\<not> is_closed h" and "srv (sent h @ [req]) = Inl e" and "\<not> retried a mr e"
  shows "request_loop srv backoff mr req (a # as) h =
           (Some (Inl e), h\<lparr>sent := sent h @ [req]\<rparr>, [])"
  using assms by (simp add: http_request_open)

lemma request_loop_return:
  assumes "\<not> is_closed h" and "srv (sent h @ [req]) = Inr body"
  shows "request_loop srv backoff mr req (a # as) h =
           (Some (Inr body), h\<lparr>sent := sent h @ [req]\<rparr>, [])"
  using assms by (simp add: http_request_open)

lemma request_loop_backoff_raise:
  assumes "\<not> is_closed h" and "srv (sent h @ [req]) = Inl e" and "retried a mr e"
    and "backoff a = Inl ex"
  shows "request_loop srv backoff mr req (a # as) h =
           (Some (Inl ex), h\<lparr>sent := sent h @ [req]\<rparr>, [])"
  using assms by (simp add: http_request_open)

lemma request_loop_sleep_forever:
  assumes "\<not> is_closed h" and "srv (sent h @ [req]) = Inl e" and "retried a mr e"
    and "backoff a = Inr PosInf"
  shows "request_loop srv backoff mr req (a # as) h =
           (None, h\<lparr>sent := sent h @ [req]\<rparr>, [PosInf])"
  using assms by (simp add: http_request_open)

lemma request_loop_retry:
  assumes "\<not> is_closed h" and "srv (sent h @ [req]) = Inl e" and "retried a mr e"
    and "backoff a = Inr d" and "d \<noteq> PosInf"
  shows "request_loop srv backoff mr req (a # as) h =
     (case request_loop srv backoff mr req as (h\<lparr>sent := sent h @ [req]\<rparr>) of
        (r, h'', delays) \<Rightarrow> (r, h'', d # delays))"
  using assms by (simp add: http_request_open)

text \<open>From here on the loop is unfolded through the lemmas above.\<close>

declare request_loop.simps(2) [simp del]

text \<open>
  Whatever happens, the requests a call of the loop sends are copies of the one request it
  was given, at most one per attempt, and at least one when the HTTP client is open and
  there is an attempt to make.
\<close>

lemma request_loop_sent:
  "request_loop srv backoff mr req as h = (r, h', ds) \<Longrightarrow>
     \<exists>k. h' = h\<lparr>sent := sent h @ replicate k req\<rparr> \<and> k \<le> length as
        \<and> (\<not> is_closed h \<and> as \<noteq> [] \<longrightarrow> 0 < k)"
proof (induction as arbitrary: h r h' ds)
  case Nil
  then show ?case by (auto intro: exI[of _ 0])
next
  case (Cons a as)
  show ?case
  proof (cases "is_closed h")
    case True
    with Cons.prems show ?thesis by (auto simp: request_loop_closed intro: exI[of _ 0])
  next
    case False
    let ?h1 = "h\<lparr>sent := sent h @ [req]\<rparr>"
    show ?thesis
    proof (cases "srv (sent h @ [req])")
      case (Inr body)
      with False Cons.prems show ?thesis
        by (auto simp: request_loop_return intro!: exI[of _ 1])
    next
      case (Inl e)
      show ?thesis
      proof (cases "retried a mr e")
        case nr: False
        with False Inl Cons.prems show ?thesis
          by (auto simp: request_loop_raise intro!: exI[of _ 1])
      next
        case rt: True
        show ?thesis
        proof (cases "backoff a")
          case b: (Inl e')
          with False Inl rt Cons.prems show ?thesis
            by (auto simp: request_loop_backoff_raise intro!: exI[of _ 1])
        next
          case b: (Inr d)
          show ?thesis
          proof (cases "d = PosInf")
            case True
            with False Inl rt b Cons.prems show ?thesis
              by (auto simp: request_loop_sleep_forever intro!: exI[of _ 1])
          next
            case fin: False
            obtain r1 h1 ds1 where rec: "request_loop srv backoff mr req as ?h1 = (r1, h1, ds1)"
              using prod_cases3 by blast
            from Cons.IH[OF rec] obtain k where
              k: "h1 = ?h1\<lparr>sent := sent ?h1 @ replicate k req\<rparr>" "k \<le> length as"
              by blast
            from False Inl rt b fin rec Cons.prems have "h' = h1"
              by (simp add: request_loop_retry)
            with k show ?thesis
              by (intro exI[of _ "Suc k"]) (simp add: replicate_app_Cons_same)
          qed
        qed
      qed
    qed
  qed
qed

text \<open>A loop whose delays are never \<^verbatim>\<open>inf\<close> returns or raises.\<close>

lemma request_loop_terminates:
  assumes "\<And>a. backoff a \<noteq> Inr PosInf"
  shows "fst (request_loop srv backoff mr req as h) \<noteq> None"
proof (induction as arbitrary: h)
  case Nil
  then show ?case by simp
next
  case (Cons a as)
  show ?case
  proof (cases "is_closed h")
    case True
    then show ?thesis by (simp add: request_loop_closed)
  next
    case False
    let ?h1 = "h\<lparr>sent := sent h @ [req]\<rparr>"
    show ?thesis
    proof (cases "srv (sent h @ [req])")
      case (Inr body)
      with False show ?thesis by (simp add: request_loop_return)
    next
      case (Inl e)
      show ?thesis
      proof (cases "retried a mr e")
        case nr: False
        with False Inl show ?thesis by (simp add: request_loop_raise)
      next
        case rt: True
        show ?thesis
        proof (cases "backoff a")
          case b: (Inl e')
          with False Inl rt show ?thesis by (simp add: request_loop_backoff_raise)
        next
          case b: (Inr d)
          then have fin: "d \<noteq> PosInf" using assms[of a] by auto
          with False Inl rt b Cons.IH[of ?h1] show ?thesis
            by (auto simp: request_loop_retry split: prod.splits)
        qed
      qed
    qed
  qed
qed

lemma backoff_int_finite: "backoff_int bf a \<noteq> Inr PosInf"
  by (simp add: backoff_int_def Let_def split: sum.splits)

section \<open>A server that fails every attempt\<close>

lemma retried_iff: "retried a mr e \<longleftrightarrow> a < mr \<and> retriable_failure e"
  by (cases e) simp_all

text \<open>
  Every attempt fails with a retriable failure, and at every attempt the delay can be
  computed and is not \<^verbatim>\<open>inf\<close>: the loop runs from \<open>a\<close> to \<open>max_retries\<close>, sleeps before each
  retry and re-raises the failure of the last attempt.
\<close>

lemma request_loop_exhausted:
  assumes "\<not> is_closed h"
    and fails: "\<And>log. \<exists>e. srv log = Inl e \<and> retriable_failure e"
    and delays: "\<And>k. a \<le> k \<Longrightarrow> k < mr \<Longrightarrow> backoff k = Inr (d k) \<and> d k \<noteq> PosInf"
    and "a \<le> mr"
  shows "request_loop srv backoff mr req [a..mr] h =
      (Some (srv (sent h @ replicate (nat (mr - a + 1)) req)),
       h\<lparr>sent := sent h @ replicate (nat (mr - a + 1)) req\<rparr>,
       map d [a..mr - 1])"
  using assms(1,3,4)
proof (induction "nat (mr - a)" arbitrary: a h)
  case 0
  then have eq: "a = mr" by simp
  obtain e where e: "srv (sent h @ [req]) = Inl e" "retriable_failure e"
    using fails by blast
  have "\<not> retried mr mr e" by (simp add: retried_iff)
  with 0 e eq show ?case
    by (simp add: upto.simps request_loop_raise)
next
  case (Suc n)
  then have lt: "a < mr" and n: "n = nat (mr - (a + 1))" by simp_all
  let ?h1 = "h\<lparr>sent := sent h @ [req]\<rparr>"
  obtain e where e: "srv (sent h @ [req]) = Inl e" "retriable_failure e"
    using fails by blast
  have rt: "retried a mr e" using lt e by (simp add: retried_iff)
  have b: "backoff a = Inr (d a)" "d a \<noteq> PosInf" using Suc.prems lt by simp_all
  have up: "[a..mr] = a # [a + 1..mr]" using lt by (simp add: upto_rec1)
  have up': "[a..mr - 1] = a # [a + 1..mr - 1]" using lt by (simp add: upto_rec1)
  have rec: "request_loop srv backoff mr req [a + 1..mr] ?h1 =
      (Some (srv (sent ?h1 @ replicate (nat (mr - (a + 1) + 1)) req)),
       ?h1\<lparr>sent := sent ?h1 @ replicate (nat (mr - (a + 1) + 1)) req\<rparr>,
       map d [a + 1..mr - 1])"
    using Suc.prems lt by (intro Suc.hyps(1)[OF n]) simp_all
  have k: "nat (mr - a + 1) = Suc (nat (mr - (a + 1) + 1))" using lt by simp
  show ?case
    unfolding up up' k
    using Suc.prems(1) e(1) rt b rec
    by (simp add: request_loop_retry)
qed

text \<open>
  The same server, but at attempt \<open>K\<close>, before the last attempt, the loop does not go on:
  the computation of the delay raises, or the delay is \<^verbatim>\<open>inf\<close> and the sleep never ends.
  Either way the server has had \<open>K - a + 1\<close> requests.
\<close>

lemma request_loop_stops:
  assumes "\<not> is_closed h"
    and fails: "\<And>log. \<exists>e. srv log = Inl e \<and> retriable_failure e"
    and delays: "\<And>k. a \<le> k \<Longrightarrow> k < K \<Longrightarrow> backoff k = Inr (d k) \<and> d k \<noteq> PosInf"
    and "a \<le> K" and "K < mr"
  shows "request_loop srv backoff mr req [a..mr] h =
      (case backoff K of
         Inl ex \<Rightarrow> (Some (Inl ex), h\<lparr>sent := sent h @ replicate (nat (K - a + 1)) req\<rparr>,
                    map d [a..K - 1])
       | Inr x \<Rightarrow>
           (if x = PosInf
            then (None, h\<lparr>sent := sent h @ replicate (nat (K - a + 1)) req\<rparr>,
                  map d [a..K - 1] @ [PosInf])
            else request_loop srv backoff mr req [a..mr] h))"
  using assms(1,3,4)
proof (induction "nat (K - a)" arbitrary: a h)
  case 0
  then have eq: "a = K" by simp
  obtain e where e: "srv (sent h @ [req]) = Inl e" "retriable_failure e"
    using fails by blast
  have rt: "retried K mr e" using e \<open>K < mr\<close> by (simp add: retried_iff)
  have up: "[K..mr] = K # [K + 1..mr]" using \<open>K < mr\<close> by (simp add: upto_rec1)
  show ?case
    unfolding eq using 0(2) e(1) rt
    by (auto simp: up request_loop_backoff_raise request_loop_sleep_forever split: sum.splits)
next
  case (Suc n)
  then have lt: "a < K" and n: "n = nat (K - (a + 1))" by simp_all
  let ?h1 = "h\<lparr>sent := sent h @ [req]\<rparr>"
  obtain e where e: "srv (sent h @ [req]) = Inl e" "retriable_failure e"
    using fails by blast
  have rt: "retried a mr e" using lt \<open>K < mr\<close> e by (simp add: retried_iff)
  have b: "backoff a = Inr (d a)" "d a \<noteq> PosInf" using Suc.prems lt by simp_all
  have up: "[a..mr] = a # [a + 1..mr]" using lt \<open>K < mr\<close> by (simp add: upto_rec1)
  have up': "[a..K - 1] = a # [a + 1..K - 1]" using lt by (simp add: upto_rec1)
  have k: "nat (K - a + 1) = Suc (nat (K - (a + 1) + 1))" using lt by simp
  have step: "request_loop srv backoff mr req (a # [a + 1..mr]) h =
     (case request_loop srv backoff mr req [a + 1..mr] ?h1 of
        (r, h'', delays) \<Rightarrow> (r, h'', d a # delays))"
    using Suc.prems(1) e(1) rt b by (simp add: request_loop_retry)
  have rec: "request_loop srv backoff mr req [a + 1..mr] ?h1 =
      (case backoff K of
         Inl ex \<Rightarrow> (Some (Inl ex), ?h1\<lparr>sent := sent ?h1 @ replicate (nat (K - (a + 1) + 1)) req\<rparr>,
                    map d [a + 1..K - 1])
       | Inr x \<Rightarrow>
           (if x = PosInf
            then (None, ?h1\<lparr>sent := sent ?h1 @ replicate (nat (K - (a + 1) + 1)) req\<rparr>,
                  map d [a + 1..K - 1] @ [PosInf])
            else request_loop srv backoff mr req [a + 1..mr] ?h1))"
    using Suc.prems lt by (intro Suc.hyps(1)[OF n]) simp_all
  show ?case
  proof (cases "backoff K")
    case (Inl ex)
    with rec step show ?thesis unfolding up up' k by simp
  next
    case (Inr x)
    with rec step show ?thesis unfolding up up' k by (cases "x = PosInf") simp_all
  qed
qed

section \<open>The delay\<close>

lemma float_of_int_power2:
  "float_of_int (2 ^ n) = (if 1024 \<le> n then Inl OverflowError else Inr (2 ^ n))"
proof (cases "1024 \<le> n")
  case True
  then have "(2::int) ^ 1024 \<le> 2 ^ n" by (intro power_increasing) simp_all
  moreover have "(2::int) ^ 1024 - 2 ^ 970 \<le> 2 ^ 1024" by simp
  ultimately have "(2::int) ^ 1024 - 2 ^ 970 \<le> \<bar>2 ^ n\<bar>" by simp
  with True show ?thesis by (simp add: float_of_int_def)
next
  case False
  then have "n \<le> 1023" by simp
  then have "(2::int) ^ n \<le> 2 ^ 1023" by (intro power_increasing) simp_all
  moreover have "(2::int) ^ 1023 < 2 ^ 1024 - 2 ^ 970" by simp
  ultimately have "\<not> (2::int) ^ 1024 - 2 ^ 970 \<le> \<bar>2 ^ n\<bar>" by simp
  with False show ?thesis by (simp add: float_of_int_def)
qed

lemma backoff_float_eq:
  "backoff_float bf a =
     (if 1024 \<le> a then Inl OverflowError else Inr (float_of_product (bf * 2 ^ nat a)))"
proof -
  have "(1024 \<le> nat a) = (1024 \<le> a)" by auto
  then show ?thesis by (simp add: backoff_float_def float_of_int_power2)
qed

lemma float_of_product_zero: "float_of_product 0 = Finite 0"
  by (simp add: float_of_product_def)

section \<open>The clients of the examples\<close>

text \<open>
  Their keys and the version header are ASCII, so the header check passes and the
  constructor returns the client.
\<close>

lemma is_ascii_append: "is_ascii (xs @ ys) \<longleftrightarrow> is_ascii xs \<and> is_ascii ys"
  by (simp add: is_ascii_def)

lemma is_ascii_sk_test: "is_ascii ''sk-test''"
  by (simp add: is_ascii_def)

lemma is_ascii_version: "is_ascii ''2023-06-01''"
  by (simp add: is_ascii_def)

lemma OpenAIClient_of_init:
  "is_ascii (api_key s) \<Longrightarrow>
     OpenAIClient_init header_check env defaults (Some s) = Inr (OpenAIClient_of s)"
  by (simp add: OpenAIClient_of_def OpenAIClient_init_def AsyncClient_def header_check_def
      is_ascii_append) (simp add: is_ascii_def)

lemma AnthropicClient_of_init:
  "is_ascii (api_key s) \<Longrightarrow> is_ascii (version s) \<Longrightarrow>
     AnthropicClient_init header_check env defaults sp (Some s) = Inr (AnthropicClient_of sp s)"
  by (simp add: AnthropicClient_of_def AnthropicClient_init_def AsyncClient_def header_check_def)
     (simp add: is_ascii_def)

lemma OpenAIClient_of_simps:
  assumes "is_ascii (api_key s)"
  shows "oa_client (OpenAIClient_of s) = \<lparr>is_closed = False, sent = []\<rparr>"
    and "oa_max_retries (OpenAIClient_of s) = max_retries s"
    and "oa_backoff_factor (OpenAIClient_of s) = backoff_factor s"
    and "oa_settings (OpenAIClient_of s) = s"
    and "oa_messages (OpenAIClient_of s) = [system_turn]"
  using assms
  by (simp_all add: OpenAIClient_of_def OpenAIClient_init_def AsyncClient_def header_check_def
      is_ascii_append) (simp_all add: is_ascii_def)

lemma AnthropicClient_of_simps:
  assumes "is_ascii (api_key s)" and "is_ascii (version s)"
  shows "an_client (AnthropicClient_of sp s) = \<lparr>is_closed = False, sent = []\<rparr>"
    and "an_max_retries (AnthropicClient_of sp s) = max_retries s"
    and "an_backoff_factor (AnthropicClient_of sp s) = py_int (backoff_factor s)"
    and "an_settings (AnthropicClient_of sp s) = s"
    and "an_messages (AnthropicClient_of sp s) = []"
    and "an_system_prompt (AnthropicClient_of sp s) = (if sp = [] then default_system_prompt else sp)"
  using assms
  by (simp_all add: AnthropicClient_of_def AnthropicClient_init_def AsyncClient_def header_check_def)
     (simp_all add: is_ascii_def)

lemma PerplexityClient_of_simps:
  assumes "is_ascii (api_key s)"
  shows "pp_client (PerplexityClient_of s) = \<lparr>is_closed = False, sent = []\<rparr>"
    and "pp_max_retries (PerplexityClient_of s) = max_retries s"
    and "pp_backoff_factor (PerplexityClient_of s) = py_int (backoff_factor s)"
    and "pp_settings (PerplexityClient_of s) = s"
    and "pp_messages (PerplexityClient_of s) = [system_turn]"
  using assms
  by (simp_all add: PerplexityClient_of_def PerplexityClient_init_def AsyncClient_def
      header_check_def is_ascii_append) (simp_all add: is_ascii_def)

section \<open>OpenAIClient: the retry budget\<close>

text \<open>
  With a budget of at most 1024 retries and delays that stay below the overflow of a
  float, a server that fails every attempt with a retriable failure gets exactly
  \<open>max_retries + 1\<close> requests, the delays are \<open>backoff_factor * 2 ^ attempt\<close> for the attempts
  \<open>0 .. max_retries - 1\<close>, and the call raises the failure of the last attempt.
\<close>

lemma OpenAIClient_request_exhausted:
  assumes "\<not> is_closed (oa_client self)"
    and fails: "\<And>log. \<exists>e. srv log = Inl e \<and> retriable_failure e"
    and "0 \<le> oa_max_retries self" and "oa_max_retries self \<le> 1024"
    and small: "\<And>k. 0 \<le> k \<Longrightarrow> k < oa_max_retries self \<Longrightarrow>
                 \<bar>oa_backoff_factor self * 2 ^ nat k\<bar> < 2 ^ 1024 - 2 ^ 970"
  shows "OpenAIClient_request srv self meth path js params =
      (Some (srv (sent (oa_client self) @ replicate (nat (oa_max_retries self + 1))
              \<lparr>req_method = meth, req_path = path, req_json = js, req_params = params\<rparr>)),
       (oa_client self)\<lparr>sent := sent (oa_client self) @ replicate (nat (oa_max_retries self + 1))
              \<lparr>req_method = meth, req_path = path, req_json = js, req_params = params\<rparr>\<rparr>,
       map (\<lambda>k. Finite (oa_backoff_factor self * 2 ^ nat k)) [0..oa_max_retries self - 1])"
proof -
  have fin: "float_of_product (oa_backoff_factor self * 2 ^ nat k) =
               Finite (oa_backoff_factor self * 2 ^ nat k)"
    if "0 \<le> k" "k < oa_max_retries self" for k
    using small[OF that] by (auto simp: float_of_product_def abs_if split: if_splits)
  have "request_loop srv (backoff_float (oa_backoff_factor self)) (oa_max_retries self)
          \<lparr>req_method = meth, req_path = path, req_json = js, req_params = params\<rparr>
          [0..oa_max_retries self] (oa_client self) =
      (Some (srv (sent (oa_client self) @ replicate (nat (oa_max_retries self - 0 + 1))
              \<lparr>req_method = meth, req_path = path, req_json = js, req_params = params\<rparr>)),
       (oa_client self)\<lparr>sent := sent (oa_client self) @ replicate (nat (oa_max_retries self - 0 + 1))
              \<lparr>req_method = meth, req_path = path, req_json = js, req_params = params\<rparr>\<rparr>,
       map (\<lambda>k. Finite (oa_backoff_factor self * 2 ^ nat k)) [0..oa_max_retries self - 1])"
    using assms(1-4) fin by (intro request_loop_exhausted) (simp_all add: backoff_float_eq)
  then show ?thesis by (simp add: OpenAIClient_request_def)
qed

text \<open>
  A product that is too large for a float is \<^verbatim>\<open>inf\<close>, and \<^verbatim>\<open>asyncio.sleep(inf)\<close> does not
  return: with the default backoff factor \<open>2.0\<close> and a budget of 1024 retries, the delay
  after attempt 1023 is \<^verbatim>\<open>2.0 * 2 ** 1023 = inf\<close>. The server has had 1024 requests and
  the call neither returns nor raises.
\<close>

lemma OpenAIClient_request_sleeps_forever:
  "(case OpenAIClient_request (\<lambda>log. Inl (HTTPStatusError 503))
           (OpenAIClient_of (OpenAISettings_defaults\<lparr>api_key := ''sk-test'', max_retries := 1024\<rparr>))
           ''POST'' ''https://api.openai.com/v1/chat/completions'' None None of
      (r, h, delays) \<Rightarrow> (r, length (sent h), last delays)) = (None, 1024, PosInf)"
proof -
  let ?s = "OpenAISettings_defaults\<lparr>api_key := ''sk-test'', max_retries := 1024\<rparr>"
  let ?c = "OpenAIClient_of ?s"
  let ?req = "\<lparr>req_method = ''POST'', req_path = ''https://api.openai.com/v1/chat/completions'',
                req_json = None, req_params = None\<rparr>"
  let ?srv = "\<lambda>log :: request list. (Inl (HTTPStatusError 503) :: json result)"
  let ?d = "\<lambda>k. Finite (2 * 2 ^ nat k)"
  have key: "is_ascii (api_key ?s)" by (simp add: is_ascii_sk_test)
  note cs = OpenAIClient_of_simps[OF key]
  have fin: "backoff_float 2 k = Inr (?d k) \<and> ?d k \<noteq> PosInf" if "0 \<le> k" "k < 1023" for k
  proof -
    have "nat k \<le> 1022" using that by simp
    then have "(2::rat) ^ nat k \<le> 2 ^ 1022" by (intro power_increasing) simp_all
    then have "(2::rat) * 2 ^ nat k \<le> 2 * 2 ^ 1022" by (intro mult_left_mono) simp_all
    moreover have "(2::rat) * 2 ^ 1022 < 2 ^ 1024 - 2 ^ 970" by simp
    ultimately have lt: "(2::rat) * 2 ^ nat k < 2 ^ 1024 - 2 ^ 970" by (rule le_less_trans)
    have "- (2 ^ 1024 - 2 ^ 970) < (0::rat)" by simp
    also have "(0::rat) \<le> 2 * 2 ^ nat k" by simp
    finally have gt: "- (2 ^ 1024 - 2 ^ 970) < (2::rat) * 2 ^ nat k" .
    have "float_of_product (2 * 2 ^ nat k) = Finite (2 * 2 ^ nat k)"
      unfolding float_of_product_def using lt gt by (simp only: not_le[symmetric] if_False)
    with that show ?thesis by (simp add: backoff_float_eq)
  qed
  have inf: "backoff_float 2 1023 = Inr PosInf"
    by (simp add: backoff_float_eq float_of_product_def)
  have "request_loop ?srv (backoff_float 2) 1024 ?req [0..1024] (oa_client ?c) =
      (case backoff_float 2 1023 of
         Inl ex \<Rightarrow> (Some (Inl ex),
                    (oa_client ?c)\<lparr>sent := sent (oa_client ?c) @ replicate (nat (1023 - 0 + 1)) ?req\<rparr>,
                    map ?d [0..1023 - 1])
       | Inr x \<Rightarrow>
           (if x = PosInf
            then (None,
                  (oa_client ?c)\<lparr>sent := sent (oa_client ?c) @ replicate (nat (1023 - 0 + 1)) ?req\<rparr>,
                  map ?d [0..1023 - 1] @ [PosInf])
            else request_loop ?srv (backoff_float 2) 1024 ?req [0..1024] (oa_client ?c)))"
    using fin by (intro request_loop_stops) (simp_all add: cs retriable_status_def)
  then have "request_loop ?srv (backoff_float 2) 1024 ?req [0..1024] (oa_client ?c) =
      (None, (oa_client ?c)\<lparr>sent := sent (oa_client ?c) @ replicate 1024 ?req\<rparr>,
       map ?d [0..1022] @ [PosInf])"
    unfolding inf by simp
  moreover have "oa_max_retries ?c = 1024" "oa_backoff_factor ?c = 2"
    unfolding cs by (simp_all add: OpenAISettings_defaults_def)
  ultimately show ?thesis
    by (simp add: OpenAIClient_request_def cs(1))
qed

text \<open>
  Claim C1 (for every \<open>max_retries = n \<ge> 0\<close> and every backoff factor, a server that fails
  every attempt with a retriable failure gets exactly \<open>n + 1\<close> attempts, then the last failure
  is raised). With \<open>n = 1025\<close> and a backoff factor of \<open>0.0\<close> (no time is spent sleeping) the
  code stops earlier: at attempt 1024 the product \<^verbatim>\<open>self.backoff_factor * (2 ** attempt)\<close>
  raises \<^verbatim>\<open>OverflowError\<close>, because \<open>2 ^ 1024\<close> does not convert to a float. The server has seen
  1025 requests, not 1026, and the caller gets the \<^verbatim>\<open>OverflowError\<close>, not the status 503.
\<close>

theorem OpenAIClient_request_overflow:
  "(case OpenAIClient_request (\<lambda>log. Inl (HTTPStatusError 503))
           (OpenAIClient_of (OpenAISettings_defaults\<lparr>api_key := ''sk-test'', max_retries := 1025,
                                                     backoff_factor := 0\<rparr>))
           ''POST'' ''https://api.openai.com/v1/chat/completions'' None None of
      (r, h, delays) \<Rightarrow> (r, length (sent h), delays)) =
   (Some (Inl OverflowError), 1025, replicate 1024 (Finite 0))"
proof -
  let ?s = "OpenAISettings_defaults\<lparr>api_key := ''sk-test'', max_retries := 1025, backoff_factor := 0\<rparr>"
  let ?c = "OpenAIClient_of ?s"
  let ?req = "\<lparr>req_method = ''POST'', req_path = ''https://api.openai.com/v1/chat/completions'',
                req_json = None, req_params = None\<rparr>"
  let ?srv = "\<lambda>log :: request list. (Inl (HTTPStatusError 503) :: json result)"
  have key: "is_ascii (api_key ?s)" by (simp add: is_ascii_sk_test)
  note cs = OpenAIClient_of_simps[OF key]
  have "request_loop ?srv (backoff_float 0) 1025 ?req [0..1025] (oa_client ?c) =
      (case backoff_float 0 1024 of
         Inl ex \<Rightarrow> (Some (Inl ex),
                    (oa_client ?c)\<lparr>sent := sent (oa_client ?c) @ replicate (nat (1024 - 0 + 1)) ?req\<rparr>,
                    map (\<lambda>k. Finite 0) [0..1024 - 1])
       | Inr x \<Rightarrow>
           (if x = PosInf
            then (None,
                  (oa_client ?c)\<lparr>sent := sent (oa_client ?c) @ replicate (nat (1024 - 0 + 1)) ?req\<rparr>,
                  map (\<lambda>k. Finite 0) [0..1024 - 1] @ [PosInf])
            else request_loop ?srv (backoff_float 0) 1025 ?req [0..1025] (oa_client ?c)))"
    by (intro request_loop_stops)
       (simp_all add: cs backoff_float_eq retriable_status_def float_of_product_zero)
  moreover have "map (\<lambda>k. Finite 0) [0..1023] = replicate 1024 (Finite 0)"
    by (simp add: map_replicate_const)
  ultimately show ?thesis
    by (simp add: OpenAIClient_request_def cs backoff_float_eq)
qed

theorem OpenAIClient_request_overflow_witness:
  "fst (OpenAIClient_request (\<lambda>log. Inl (HTTPStatusError 503))
           (OpenAIClient_of (OpenAISettings_defaults\<lparr>api_key := ''sk-test'', max_retries := 1025,
                                                     backoff_factor := 0\<rparr>))
           ''POST'' ''https://api.openai.com/v1/chat/completions'' None None)
     = Some (Inl OverflowError)"
  using OpenAIClient_request_overflow by (simp split: prod.splits)

text \<open>
  Claim C3: whatever the retry budget, when the first attempt of \<^verbatim>\<open>_request\<close> fails with an
  HTTP status that is neither 429 nor in 500..599 (every terminal status: 401, 403, 404, ...),
  the call raises that failure at once: one request has been sent and nothing was slept.
  There is a first attempt exactly when \<open>max_retries\<close> is not negative.
\<close>

theorem OpenAIClient_request_terminal:
  assumes "0 \<le> oa_max_retries self"
    and "http_request srv (oa_client self)
           \<lparr>req_method = meth, req_path = path, req_json = js, req_params = params\<rparr> =
         (Inl (HTTPStatusError status), h')"
    and "status \<noteq> 429" and "\<not> (500 \<le> status \<and> status < 600)"
  shows "OpenAIClient_request srv self meth path js params =
           (Some (Inl (HTTPStatusError status)), h', [])
       \<and> sent h' = sent (oa_client self) @
            [\<lparr>req_method = meth, req_path = path, req_json = js, req_params = params\<rparr>]"
proof -
  have up: "[0..oa_max_retries self] = 0 # [0 + 1..oa_max_retries self]"
    using assms(1) by (simp add: upto_rec1)
  have opn: "\<not> is_closed (oa_client self)"
    using assms(2) by (auto simp: http_request_def split: if_splits)
  have "\<not> retriable_status status"
    using assms(3,4) by (simp add: retriable_status_def)
  then have "OpenAIClient_request srv self meth path js params =
      (Some (Inl (HTTPStatusError status)), h', [])"
    unfolding OpenAIClient_request_def up using assms(2)
    by (simp add: request_loop.simps(2))
  moreover have "sent h' = sent (oa_client self) @
            [\<lparr>req_method = meth, req_path = path, req_json = js, req_params = params\<rparr>]"
    using assms(2) opn by (auto simp: http_request_def)
  ultimately show ?thesis by simp
qed

theorem OpenAIClient_request_terminal_witness:
  "OpenAIClient_request (\<lambda>log. Inl (HTTPStatusError 401))
     (OpenAIClient_of (OpenAISettings_defaults\<lparr>api_key := ''sk-test''\<rparr>))
     ''POST'' ''https://api.openai.com/v1/chat/completions'' None None =
   (Some (Inl (HTTPStatusError 401)),
    \<lparr>is_closed = False,
     sent = [\<lparr>req_method = ''POST'', req_path = ''https://api.openai.com/v1/chat/completions'',
              req_json = None, req_params = None\<rparr>]\<rparr>, [])"
proof -
  let ?s = "OpenAISettings_defaults\<lparr>api_key := ''sk-test''\<rparr>"
  have key: "is_ascii (api_key ?s)" by (simp add: is_ascii_sk_test)
  note cs = OpenAIClient_of_simps[OF key]
  show ?thesis
    using OpenAIClient_request_terminal [of "OpenAIClient_of ?s"
      "\<lambda>log. Inl (HTTPStatusError 401)" "''POST''" "''https://api.openai.com/v1/chat/completions''"
      None None 401
      "\<lparr>is_closed = False,
        sent = [\<lparr>req_method = ''POST'', req_path = ''https://api.openai.com/v1/chat/completions'',
                 req_json = None, req_params = None\<rparr>]\<rparr>"]
    by (simp add: cs http_request_def) (simp add: OpenAISettings_defaults_def)
qed

section \<open>The backoff factor of the int clients\<close>

lemma py_int_half: "py_int (1 / 2) = 0"
  by (simp add: py_int_def floor_eq_iff)

text \<open>
  Claim C2 (the delay before the retry after attempt \<open>a\<close> is the settings' backoff factor
  times \<open>2 ^ a\<close>, in all three clients). \<open>AnthropicClient\<close> built from settings whose
  \<open>backoff_factor\<close> is \<open>0.5\<close> keeps \<^verbatim>\<open>int(0.5) = 0\<close>: after a 503 at attempt 0 it sleeps
  \<open>0\<close>, not \<open>0.5 * 2 ^ 0 = 0.5\<close>.
\<close>

theorem AnthropicClient_backoff_truncated:
  "snd (snd (AnthropicClient_request
      (\<lambda>log. if length log < 2 then Inl (HTTPStatusError 503) else Inr JNull)
      (AnthropicClient_of [] (AnthropicSettings_defaults\<lparr>api_key := ''sk-test'', backoff_factor := 1 / 2\<rparr>))
      ''POST'' ''https://api.anthropic.com/v1/messages'' None)) = [Finite 0]"
proof -
  let ?s = "AnthropicSettings_defaults\<lparr>api_key := ''sk-test'', backoff_factor := 1 / 2\<rparr>"
  have key: "is_ascii (api_key ?s)" "is_ascii (version ?s)"
    by (simp_all add: is_ascii_sk_test is_ascii_version AnthropicSettings_defaults_def)
  note cs = AnthropicClient_of_simps[OF key]
  show ?thesis
    unfolding AnthropicClient_request_def cs
    by (simp add: AnthropicSettings_defaults_def py_int_half upto.simps request_loop.simps(2)
        http_request_def retriable_status_def backoff_int_def float_of_int_def)
qed

theorem AnthropicClient_backoff_truncated_witness:
  "hd (snd (snd (AnthropicClient_request
      (\<lambda>log. if length log < 2 then Inl (HTTPStatusError 503) else Inr JNull)
      (AnthropicClient_of [] (AnthropicSettings_defaults\<lparr>api_key := ''sk-test'', backoff_factor := 1 / 2\<rparr>))
      ''POST'' ''https://api.anthropic.com/v1/messages'' None))) \<noteq> Finite (1 / 2 * 2 ^ 0)"
  using AnthropicClient_backoff_truncated by simp

section \<open>Payloads\<close>

lemma map_of_dict_set: "map_of (dict_set k v d) = (map_of d)(k \<mapsto> v)"
  by (induction d) (auto simp: fun_eq_iff)

lemma map_of_dict_update:
  "k \<notin> fst ` set kw \<Longrightarrow> map_of (dict_update d kw) k = map_of d k"
  by (induction kw arbitrary: d) (auto simp: map_of_dict_set)

section \<open>A negative retry budget\<close>

text \<open>
  Claim C9: the settings accept a negative \<open>max_retries\<close> (the validator looks at the API key
  only), and a client that the constructor has built from such settings keeps it. Then
  \<^verbatim>\<open>range(self.max_retries + 1)\<close> is empty: \<^verbatim>\<open>_request\<close> returns \<^verbatim>\<open>None\<close> and leaves the HTTP
  client as it was, no request sent; \<^verbatim>\<open>chat_completion\<close> without the unwrap flag returns that
  \<^verbatim>\<open>None\<close>, neither a response nor an error, and has appended the user turn.
\<close>

theorem negative_max_retries:
  assumes "max_retries s < 0" and "api_key s \<noteq> []"
    and "OpenAIClient_init lib env defaults (Some s) = Inr self"
  shows "OpenAISettings_init env s = Inr s \<and>
     oa_max_retries self = max_retries s \<and>
     OpenAIClient_request srv self meth path js params = (Some (Inr JNull), oa_client self, []) \<and>
     OpenAIClient_chat_completion srv self q m t False kw =
       (Some (Inr JNull),
        self\<lparr>oa_messages := oa_messages self @
               [JObj [(''role'', JStr ''user''), (''content'', JStr q)]]\<rparr>, [])"
proof -
  have mr: "oa_max_retries self = max_retries s"
    using assms(3) by (auto simp: OpenAIClient_init_def split: sum.splits)
  have "OpenAISettings_init env s = Inr s"
    using assms(2) by (simp add: OpenAISettings_init_def OpenAISettings_validate_api_key_def)
  then show ?thesis
    using assms(1) mr
    by (simp add: OpenAIClient_chat_completion_def OpenAIClient_request_def)
qed

theorem negative_max_retries_witness:
  "OpenAISettings_init Map.empty (OpenAISettings_defaults\<lparr>api_key := ''sk-test'', max_retries := - 1\<rparr>)
     = Inr (OpenAISettings_defaults\<lparr>api_key := ''sk-test'', max_retries := - 1\<rparr>) \<and>
   OpenAIClient_init header_check Map.empty OpenAISettings_defaults
     (Some (OpenAISettings_defaults\<lparr>api_key := ''sk-test'', max_retries := - 1\<rparr>)) =
     Inr (OpenAIClient_of (OpenAISettings_defaults\<lparr>api_key := ''sk-test'', max_retries := - 1\<rparr>)) \<and>
   fst (OpenAIClient_chat_completion (\<lambda>log. Inr (JStr ''never asked''))
     (OpenAIClient_of (OpenAISettings_defaults\<lparr>api_key := ''sk-test'', max_retries := - 1\<rparr>))
     ''Tell me a simple joke.'' ''gpt-4.1-nano'' (17 / 20) False []) = Some (Inr JNull) \<and>
   sent (oa_client (fst (snd (OpenAIClient_chat_completion (\<lambda>log. Inr (JStr ''never asked''))
     (OpenAIClient_of (OpenAISettings_defaults\<lparr>api_key := ''sk-test'', max_retries := - 1\<rparr>))
     ''Tell me a simple joke.'' ''gpt-4.1-nano'' (17 / 20) False [])))) = []"
proof -
  let ?s = "OpenAISettings_defaults\<lparr>api_key := ''sk-test'', max_retries := - 1\<rparr>"
  have key: "is_ascii (api_key ?s)" by (simp add: is_ascii_sk_test)
  have init: "OpenAIClient_init header_check Map.empty OpenAISettings_defaults (Some ?s) =
      Inr (OpenAIClient_of ?s)"
    using key by (rule OpenAIClient_of_init)
  have neg: "max_retries ?s < 0" and nonempty: "api_key ?s \<noteq> []" by simp_all
  note inst = negative_max_retries [OF neg nonempty init,
      where srv = "\<lambda>log. Inr (JStr ''never asked'')" and meth = "''POST''" and path = "''p''"
        and js = None and params = None
        and q = "''Tell me a simple joke.''" and m = "''gpt-4.1-nano''" and t = "17 / 20"
        and kw = "[]"]
  show ?thesis
    using inst init by (simp add: OpenAIClient_of_simps(1)[OF key])
qed

section \<open>The credential\<close>

text \<open>
  Claim C8: a settings value built with no \<open>api_key\<close> while the environment has no
  variable for it raises (the validator's \<^verbatim>\<open>ValueError\<close>), and so does the constructor of a
  client that is given no settings, before it has an HTTP client to send anything with.
  With an explicit \<open>api_key\<close> the construction succeeds and keeps that key, whatever the
  environment holds; with none, a variable holding a key makes it succeed with the
  variable's value. An empty string counts as absent on both sides
  (\<^verbatim>\<open>if not self.api_key\<close>). Stated for \<open>OpenAISettings\<close> and \<open>AnthropicSettings\<close>.
\<close>

theorem settings_credential:
  "(api_key s = [] \<longrightarrow> env ''OPENAI_API_KEY'' = None \<longrightarrow>
      OpenAISettings_init env s =
        Inl (ValueError ''OPENAI_API_KEY must be provided either as parameter or environment variable'')
      \<and> OpenAIClient_init lib env s None =
        Inl (ValueError ''OPENAI_API_KEY must be provided either as parameter or environment variable''))
   \<and> (api_key s \<noteq> [] \<longrightarrow> OpenAISettings_init env s = Inr s)
   \<and> (api_key s = [] \<longrightarrow> env ''OPENAI_API_KEY'' = Some v \<longrightarrow> v \<noteq> [] \<longrightarrow>
      OpenAISettings_init env s = Inr (s\<lparr>api_key := v\<rparr>))
   \<and> (api_key s = [] \<longrightarrow> env ''OPENAI_API_KEY'' = Some [] \<longrightarrow>
      OpenAISettings_init env s =
        Inl (ValueError ''OPENAI_API_KEY must be provided either as parameter or environment variable''))
   \<and> (api_key a = [] \<longrightarrow> env ''ANTHROPIC_API_KEY'' = None \<longrightarrow>
      AnthropicSettings_init env a =
        Inl (ValueError ''ANTHROPIC_API_KEY must be provided either as parameter or environment variable'')
      \<and> AnthropicClient_init lib env a system_prompt None =
        Inl (ValueError ''ANTHROPIC_API_KEY must be provided either as parameter or environment variable''))
   \<and> (api_key a \<noteq> [] \<longrightarrow> AnthropicSettings_init env a = Inr a)
   \<and> (api_key a = [] \<longrightarrow> env ''ANTHROPIC_API_KEY'' = Some w \<longrightarrow> w \<noteq> [] \<longrightarrow>
      AnthropicSettings_init env a = Inr (a\<lparr>api_key := w\<rparr>))
   \<and> (api_key a = [] \<longrightarrow> env ''ANTHROPIC_API_KEY'' = Some [] \<longrightarrow>
      AnthropicSettings_init env a =
        Inl (ValueError ''ANTHROPIC_API_KEY must be provided either as parameter or environment variable''))"
  by (simp add: OpenAISettings_init_def OpenAISettings_validate_api_key_def OpenAIClient_init_def
      AnthropicSettings_init_def AnthropicSettings_validate_api_key_def AnthropicClient_init_def
      getenv_def)

theorem settings_credential_witness:
  "OpenAISettings_init Map.empty OpenAISettings_defaults =
     Inl (ValueError ''OPENAI_API_KEY must be provided either as parameter or environment variable'')
   \<and> OpenAIClient_init header_check Map.empty OpenAISettings_defaults None =
     Inl (ValueError ''OPENAI_API_KEY must be provided either as parameter or environment variable'')
   \<and> OpenAISettings_init [''OPENAI_API_KEY'' \<mapsto> ''sk-env''] (OpenAISettings_defaults\<lparr>api_key := ''sk-arg''\<rparr>)
       = Inr (OpenAISettings_defaults\<lparr>api_key := ''sk-arg''\<rparr>)
   \<and> OpenAISettings_init [''OPENAI_API_KEY'' \<mapsto> ''sk-env''] OpenAISettings_defaults
       = Inr (OpenAISettings_defaults\<lparr>api_key := ''sk-env''\<rparr>)
   \<and> AnthropicSettings_init Map.empty AnthropicSettings_defaults =
     Inl (ValueError ''ANTHROPIC_API_KEY must be provided either as parameter or environment variable'')
   \<and> AnthropicSettings_init [''ANTHROPIC_API_KEY'' \<mapsto> ''sk-env''] (AnthropicSettings_defaults\<lparr>api_key := ''sk-arg''\<rparr>)
       = Inr (AnthropicSettings_defaults\<lparr>api_key := ''sk-arg''\<rparr>)
   \<and> AnthropicSettings_init [''ANTHROPIC_API_KEY'' \<mapsto> ''sk-env''] AnthropicSettings_defaults
       = Inr (AnthropicSettings_defaults\<lparr>api_key := ''sk-env''\<rparr>)"
  using settings_credential [where s = OpenAISettings_defaults and env = Map.empty
      and lib = header_check
      and a = AnthropicSettings_defaults and system_prompt = "[]" and v = "''sk-env''" and w = "''sk-env''"]
    settings_credential [where s = "OpenAISettings_defaults\<lparr>api_key := ''sk-arg''\<rparr>"
      and env = "[''OPENAI_API_KEY'' \<mapsto> ''sk-env'']" and lib = header_check
      and a = AnthropicSettings_defaults and system_prompt = "[]" and v = "''sk-env''" and w = "''sk-env''"]
    settings_credential [where s = OpenAISettings_defaults
      and env = "[''OPENAI_API_KEY'' \<mapsto> ''sk-env'']" and lib = header_check
      and a = AnthropicSettings_defaults and system_prompt = "[]" and v = "''sk-env''" and w = "''sk-env''"]
    settings_credential [where s = OpenAISettings_defaults
      and env = "[''ANTHROPIC_API_KEY'' \<mapsto> ''sk-env'']" and lib = header_check
      and a = "AnthropicSettings_defaults\<lparr>api_key := ''sk-arg''\<rparr>" and system_prompt = "[]"
      and v = "''sk-env''" and w = "''sk-env''"]
    settings_credential [where s = OpenAISettings_defaults
      and env = "[''ANTHROPIC_API_KEY'' \<mapsto> ''sk-env'']" and lib = header_check
      and a = AnthropicSettings_defaults and system_prompt = "[]"
      and v = "''sk-env''" and w = "''sk-env''"]
  by (simp add: OpenAISettings_defaults_def AnthropicSettings_defaults_def)

section \<open>Unwrapping the answer\<close>

text \<open>
  The chain of subscripts \<^verbatim>\<open>result['choices'][0]['message']['content']\<close> returns the value at
  the path when the body has it, and raises the lookup error of the first subscript that
  fails when it has not.
\<close>

lemma answer_of_path:
  "answer_path body = Some v \<Longrightarrow> answer_of body = Inr v"
  by (cases body)
     (auto simp: answer_of_def list_index_def split: option.splits json.splits list.splits)

lemma answer_of_no_path:
  "answer_path body = None \<Longrightarrow>
     \<exists>e. answer_of body = Inl e \<and> class_name e \<in> {''KeyError'', ''IndexError'', ''TypeError''}"
  by (cases body)
     (auto simp: answer_of_def list_index_def split: option.splits json.splits list.splits sum.splits)

lemma request_first_attempt_returns:
  assumes "0 \<le> mr" and "\<not> is_closed h" and "srv (sent h @ [req]) = Inr body"
  shows "request_loop srv backoff mr req [0..mr] h =
           (Some (Inr body), h\<lparr>sent := sent h @ [req]\<rparr>, [])"
proof -
  have "[0..mr] = 0 # [0 + 1..mr]" using assms(1) by (simp add: upto_rec1)
  then show ?thesis using assms(2,3) by (simp add: request_loop_return)
qed

lemma request_closed:
  assumes "0 \<le> mr" and "is_closed h"
  shows "request_loop srv backoff mr req [0..mr] h = (Some (Inl RuntimeError), h, [])"
proof -
  have "[0..mr] = 0 # [0 + 1..mr]" using assms(1) by (simp add: upto_rec1)
  then show ?thesis using assms(2) by (simp add: request_loop_closed)
qed

text \<open>
  Claim C4, as amended. The first attempt of \<open>OpenAIClient.chat_completion\<close> with
  \<^verbatim>\<open>return_only_answer=True\<close> gets a successful response with some body. Then the call has
  sent that one request and slept nothing, and it gives what the subscripts give on the
  body: for \<^verbatim>\<open>{"choices":[{"message":{"content":"hi"}}]}\<close> the string \<^verbatim>\<open>"hi"\<close>; for any
  body with the path, the value there; for a body without the path a \<^verbatim>\<open>KeyError\<close>, an
  \<^verbatim>\<open>IndexError\<close> or a \<^verbatim>\<open>TypeError\<close>, raised after the request loop has returned, so never
  retried. The code defines no error class of its own for this.
\<close>

theorem chat_completion_answer:
  assumes "0 \<le> oa_max_retries self" and "\<not> is_closed (oa_client self)"
    and req: "req = \<lparr>req_method = ''POST'',
               req_path = base_url (oa_settings self) @ ''chat/completions'',
               req_json = Some (dict_update
                 [(''model'', JStr model),
                  (''messages'', JArr (oa_messages self @
                     [JObj [(''role'', JStr ''user''), (''content'', JStr query)]])),
                  (''temperature'', JFloat temperature)] kwargs),
               req_params = None\<rparr>"
    and "srv (sent (oa_client self) @ [req]) = Inr body"
  shows "OpenAIClient_chat_completion srv self query model temperature True kwargs =
      (Some (answer_of body),
       self\<lparr>oa_messages := oa_messages self @
              [JObj [(''role'', JStr ''user''), (''content'', JStr query)]],
            oa_client := (oa_client self)\<lparr>sent := sent (oa_client self) @ [req]\<rparr>\<rparr>,
       [])
    \<and> (body = JObj [(''choices'', JArr [JObj [(''message'', JObj [(''content'', JStr ''hi'')])]])]
         \<longrightarrow> answer_of body = Inr (JStr ''hi''))
    \<and> (\<forall>v. answer_path body = Some v \<longrightarrow> answer_of body = Inr v)
    \<and> (answer_path body = None \<longrightarrow>
         (\<exists>e. answer_of body = Inl e \<and>
              class_name e \<in> {''KeyError'', ''IndexError'', ''TypeError''}))"
proof -
  have "OpenAIClient_chat_completion srv self query model temperature True kwargs =
      (Some (answer_of body),
       self\<lparr>oa_messages := oa_messages self @
              [JObj [(''role'', JStr ''user''), (''content'', JStr query)]],
            oa_client := (oa_client self)\<lparr>sent := sent (oa_client self) @ [req]\<rparr>\<rparr>,
       [])"
    using assms(1,2,4) unfolding req
    by (simp add: OpenAIClient_chat_completion_def OpenAIClient_request_def Let_def
        request_first_attempt_returns)
  moreover have "body = JObj [(''choices'', JArr [JObj [(''message'', JObj [(''content'', JStr ''hi'')])]])]
         \<longrightarrow> answer_of body = Inr (JStr ''hi'')"
    by (simp add: answer_of_def list_index_def)
  ultimately show ?thesis
    using answer_of_path answer_of_no_path by blast
qed

theorem chat_completion_answer_witness:
  "fst (OpenAIClient_chat_completion
     (\<lambda>log. Inr (JObj [(''choices'', JArr [JObj [(''message'', JObj [(''content'', JStr ''hi'')])]])]))
     (OpenAIClient_of (OpenAISettings_defaults\<lparr>api_key := ''sk-test''\<rparr>))
     ''Say hi.'' ''gpt-4.1-nano'' (17 / 20) True []) = Some (Inr (JStr ''hi''))
   \<and> fst (OpenAIClient_chat_completion (\<lambda>log. Inr (JObj [(''choices'', JArr [])]))
     (OpenAIClient_of (OpenAISettings_defaults\<lparr>api_key := ''sk-test''\<rparr>))
     ''Say hi.'' ''gpt-4.1-nano'' (17 / 20) True []) = Some (Inl IndexError)
   \<and> length (sent (oa_client (fst (snd (OpenAIClient_chat_completion
     (\<lambda>log. Inr (JObj [(''choices'', JArr [])]))
     (OpenAIClient_of (OpenAISettings_defaults\<lparr>api_key := ''sk-test''\<rparr>))
     ''Say hi.'' ''gpt-4.1-nano'' (17 / 20) True []))))) = 1"
  using chat_completion_answer [where self = "OpenAIClient_of (OpenAISettings_defaults\<lparr>api_key := ''sk-test''\<rparr>)"
      and srv = "\<lambda>log. Inr (JObj [(''choices'', JArr [JObj [(''message'', JObj [(''content'', JStr ''hi'')])]])])"
      and query = "''Say hi.''" and model = "''gpt-4.1-nano''" and temperature = "17 / 20"
      and kwargs = "[]", OF _ _ refl refl]
    chat_completion_answer [where self = "OpenAIClient_of (OpenAISettings_defaults\<lparr>api_key := ''sk-test''\<rparr>)"
      and srv = "\<lambda>log. Inr (JObj [(''choices'', JArr [])])"
      and query = "''Say hi.''" and model = "''gpt-4.1-nano''" and temperature = "17 / 20"
      and kwargs = "[]", OF _ _ refl refl]
  by (simp add: OpenAIClient_of_simps is_ascii_def OpenAISettings_defaults_def answer_of_def
      list_index_def)

text \<open>
  Claim C4 as stated has the call raise a \<^verbatim>\<open>ResponseShapeError\<close>. On the body
  \<^verbatim>\<open>{"error": "overloaded"}\<close> it raises \<^verbatim>\<open>KeyError('choices')\<close>.
\<close>

theorem chat_completion_answer_counterexample:
  "fst (OpenAIClient_chat_completion (\<lambda>log. Inr (JObj [(''error'', JStr ''overloaded'')]))
     (OpenAIClient_of (OpenAISettings_defaults\<lparr>api_key := ''sk-test''\<rparr>))
     ''Say hi.'' ''gpt-4.1-nano'' (17 / 20) True []) = Some (Inl (KeyError (JStr ''choices'')))
   \<and> class_name (KeyError (JStr ''choices'')) \<noteq> ''ResponseShapeError''"
  by (simp add: OpenAIClient_chat_completion_def OpenAIClient_request_def Let_def
      request_first_attempt_returns OpenAIClient_of_simps is_ascii_def OpenAISettings_defaults_def
      answer_of_def)

section \<open>Calls on a closed client\<close>

text \<open>
  Claim C5, as amended. \<^verbatim>\<open>close()\<close> closes the HTTP client and nothing else: a second
  \<^verbatim>\<open>close()\<close> changes nothing and raises nothing. The clients keep no flag of their own, so
  a later \<^verbatim>\<open>chat_completion\<close> or \<^verbatim>\<open>embeddings\<close> runs as always: \<^verbatim>\<open>chat_completion\<close>
  appends the user turn, and the first attempt of the loop (there is one when
  \<open>max_retries\<close> is not negative) calls the HTTP client, whose \<^verbatim>\<open>RuntimeError\<close> is not caught
  by the loop: it reaches the caller after no request sent and no sleep. For the three
  clients.
\<close>

theorem call_after_close:
  "OpenAIClient_close (OpenAIClient_close c) = OpenAIClient_close c
   \<and> (0 \<le> oa_max_retries c \<longrightarrow>
        OpenAIClient_chat_completion srv (OpenAIClient_close c) query model temperature flag kwargs =
          (Some (Inl RuntimeError),
           (OpenAIClient_close c)\<lparr>oa_messages := oa_messages c @
              [JObj [(''role'', JStr ''user''), (''content'', JStr query)]]\<rparr>, [])
        \<and> OpenAIClient_embeddings srv (OpenAIClient_close c) inp model flag kwargs =
          (Some (Inl RuntimeError), OpenAIClient_close c, []))
   \<and> AnthropicClient_close (AnthropicClient_close a) = AnthropicClient_close a
   \<and> (0 \<le> an_max_retries a \<longrightarrow>
        AnthropicClient_chat_completion srv (AnthropicClient_close a) query model max_tokens temp
            stop_sequences kwargs =
          (Some (Inl RuntimeError),
           (AnthropicClient_close a)\<lparr>an_messages := an_messages a @
              [JObj [(''role'', JStr ''user''), (''content'', JStr query)]]\<rparr>, []))
   \<and> PerplexityClient_close (PerplexityClient_close p) = PerplexityClient_close p
   \<and> (0 \<le> pp_max_retries p \<longrightarrow>
        PerplexityClient_chat_completion srv (PerplexityClient_close p) query model =
          (Some (Inl RuntimeError),
           (PerplexityClient_close p)\<lparr>pp_messages := pp_messages p @
              [JObj [(''role'', JStr ''user''), (''content'', JStr query)]]\<rparr>, []))"
  by (simp add: OpenAIClient_close_def AnthropicClient_close_def PerplexityClient_close_def
      aclose_def OpenAIClient_chat_completion_def OpenAIClient_embeddings_def
      AnthropicClient_chat_completion_def PerplexityClient_chat_completion_def
      OpenAIClient_request_def AnthropicClient_request_def PerplexityClient_request_def
      Let_def request_closed)

theorem call_after_close_witness:
  "fst (OpenAIClient_chat_completion (\<lambda>log. Inr (JStr ''never asked''))
     (OpenAIClient_close (OpenAIClient_close (OpenAIClient_of (OpenAISettings_defaults\<lparr>api_key := ''sk-test''\<rparr>))))
     ''Tell me a simple joke.'' ''gpt-4.1-nano'' (17 / 20) True []) = Some (Inl RuntimeError)
   \<and> sent (oa_client (fst (snd (OpenAIClient_chat_completion (\<lambda>log. Inr (JStr ''never asked''))
     (OpenAIClient_close (OpenAIClient_close (OpenAIClient_of (OpenAISettings_defaults\<lparr>api_key := ''sk-test''\<rparr>))))
     ''Tell me a simple joke.'' ''gpt-4.1-nano'' (17 / 20) True [])))) = []
   \<and> oa_messages (fst (snd (OpenAIClient_chat_completion (\<lambda>log. Inr (JStr ''never asked''))
     (OpenAIClient_close (OpenAIClient_close (OpenAIClient_of (OpenAISettings_defaults\<lparr>api_key := ''sk-test''\<rparr>))))
     ''Tell me a simple joke.'' ''gpt-4.1-nano'' (17 / 20) True []))) =
       [JObj [(''role'', JStr ''system''), (''content'', JStr default_system_prompt)],
        JObj [(''role'', JStr ''user''), (''content'', JStr ''Tell me a simple joke.'')]]"
  using call_after_close [where c = "OpenAIClient_of (OpenAISettings_defaults\<lparr>api_key := ''sk-test''\<rparr>)"
      and srv = "\<lambda>log. Inr (JStr ''never asked'')" and query = "''Tell me a simple joke.''"
      and model = "''gpt-4.1-nano''" and temperature = "17 / 20" and flag = True and kwargs = "[]"]
  by (simp add: OpenAIClient_of_simps is_ascii_def OpenAISettings_defaults_def OpenAIClient_close_def
      aclose_def)

text \<open>
  Claim C5 as stated has the call raise a \<^verbatim>\<open>ClosedClientError\<close>. What the caller gets is the
  \<^verbatim>\<open>RuntimeError\<close> of httpx.
\<close>

theorem call_after_close_counterexample:
  "fst (OpenAIClient_chat_completion (\<lambda>log. Inr (JStr ''never asked''))
     (OpenAIClient_close (OpenAIClient_of (OpenAISettings_defaults\<lparr>api_key := ''sk-test''\<rparr>)))
     ''Tell me a simple joke.'' ''gpt-4.1-nano'' (17 / 20) False []) = Some (Inl RuntimeError)
   \<and> class_name RuntimeError \<noteq> ''ClosedClientError''"
  by (simp add: OpenAIClient_chat_completion_def OpenAIClient_request_def Let_def
      OpenAIClient_close_def aclose_def request_closed OpenAIClient_of_simps is_ascii_def
      OpenAISettings_defaults_def)

section \<open>What a call sends\<close>

lemma new_requests_append: "new_requests h (h\<lparr>sent := sent h @ xs\<rparr>) = xs"
  by (simp add: new_requests_def)

lemma upto_nonempty: "0 \<le> mr \<Longrightarrow> [0..mr] \<noteq> []"
  by (simp add: upto_rec1)

text \<open>
  \<^verbatim>\<open>chat_completion\<close>, whatever it returns or raises: the history has grown by the user
  turn, and every request the call sent carries the payload built from that history.
\<close>

lemma OpenAIClient_chat_completion_sent:
  assumes "OpenAIClient_chat_completion srv self q m t f kw = (r, self', ds)"
  shows "\<exists>k. oa_messages self' = oa_messages self @ [user_turn q]
       \<and> oa_max_retries self' = oa_max_retries self
       \<and> is_closed (oa_client self') = is_closed (oa_client self)
       \<and> new_requests (oa_client self) (oa_client self') = replicate k
              \<lparr>req_method = ''POST'',
               req_path = base_url (oa_settings self) @ ''chat/completions'',
               req_json = Some (dict_update
                 [(''model'', JStr m),
                  (''messages'', JArr (oa_messages self @ [user_turn q])),
                  (''temperature'', JFloat t)] kw),
               req_params = None\<rparr>
       \<and> (\<not> is_closed (oa_client self) \<and> 0 \<le> oa_max_retries self \<longrightarrow> 0 < k)"
proof -
  let ?self1 = "self\<lparr>oa_messages := oa_messages self @ [user_turn q]\<rparr>"
  let ?req = "\<lparr>req_method = ''POST'',
               req_path = base_url (oa_settings self) @ ''chat/completions'',
               req_json = Some (dict_update
                 [(''model'', JStr m),
                  (''messages'', JArr (oa_messages self @ [user_turn q])),
                  (''temperature'', JFloat t)] kw),
               req_params = None\<rparr>"
  obtain r0 h ds0 where rq: "request_loop srv (backoff_float (oa_backoff_factor self))
      (oa_max_retries self) ?req [0..oa_max_retries self] (oa_client self) = (r0, h, ds0)"
    using prod_cases3 by blast
  from request_loop_sent[OF rq] obtain k where
    k: "h = (oa_client self)\<lparr>sent := sent (oa_client self) @ replicate k ?req\<rparr>"
       "\<not> is_closed (oa_client self) \<and> [0..oa_max_retries self] \<noteq> [] \<longrightarrow> 0 < k" by blast
  have "self' = ?self1\<lparr>oa_client := h\<rparr>"
    using assms rq
    by (auto simp: OpenAIClient_chat_completion_def OpenAIClient_request_def Let_def
        split: option.splits sum.splits)
  with k show ?thesis
    by (intro exI[of _ k]) (simp add: new_requests_append upto_nonempty)
qed

lemma PerplexityClient_chat_completion_sent:
  assumes "PerplexityClient_chat_completion srv self q m = (r, self', ds)"
  shows "\<exists>k. pp_messages self' = pp_messages self @ [user_turn q]
       \<and> pp_max_retries self' = pp_max_retries self
       \<and> is_closed (pp_client self') = is_closed (pp_client self)
       \<and> new_requests (pp_client self) (pp_client self') = replicate k
              \<lparr>req_method = ''POST'',
               req_path = base_url (pp_settings self) @ ''chat/completions'',
               req_json = Some [(''model'', JStr m),
                  (''messages'', JArr (pp_messages self @ [user_turn q]))],
               req_params = None\<rparr>
       \<and> (\<not> is_closed (pp_client self) \<and> 0 \<le> pp_max_retries self \<longrightarrow> 0 < k)"
proof -
  let ?self1 = "self\<lparr>pp_messages := pp_messages self @ [user_turn q]\<rparr>"
  let ?req = "\<lparr>req_method = ''POST'',
               req_path = base_url (pp_settings self) @ ''chat/completions'',
               req_json = Some [(''model'', JStr m),
                  (''messages'', JArr (pp_messages self @ [user_turn q]))],
               req_params = None\<rparr>"
  obtain r0 h ds0 where rq: "request_loop srv (backoff_int (pp_backoff_factor self))
      (pp_max_retries self) ?req [0..pp_max_retries self] (pp_client self) = (r0, h, ds0)"
    using prod_cases3 by blast
  from request_loop_sent[OF rq] obtain k where
    k: "h = (pp_client self)\<lparr>sent := sent (pp_client self) @ replicate k ?req\<rparr>"
       "\<not> is_closed (pp_client self) \<and> [0..pp_max_retries self] \<noteq> [] \<longrightarrow> 0 < k" by blast
  have "self' = ?self1\<lparr>pp_client := h\<rparr>"
    using assms rq
    by (auto simp: PerplexityClient_chat_completion_def PerplexityClient_request_def Let_def)
  with k show ?thesis
    by (intro exI[of _ k]) (simp add: new_requests_append upto_nonempty)
qed

section \<open>The conversation accumulates\<close>

text \<open>
  Claim C6, as amended: two calls of \<^verbatim>\<open>chat_completion\<close> on one instance, with the queries
  \<open>q1\<close> then \<open>q2\<close>, for \<open>OpenAIClient\<close> and for \<open>PerplexityClient\<close>, the second call of
  \<open>OpenAIClient\<close> passing no \<^verbatim>\<open>messages\<close> keyword argument of its own. However the two calls
  end, the history after them is the history before them followed by
  \<^verbatim>\<open>{"role": "user", "content": q1}\<close> and \<^verbatim>\<open>{"role": "user", "content": q2}\<close> and by nothing
  else (no reply is appended); every request the second call sends has that list as the
  \<^verbatim>\<open>messages\<close> of its payload; and the second call does send a request when the client is
  open and its retry budget is not negative.
\<close>

theorem chat_completion_accumulates:
  assumes "''messages'' \<notin> fst ` set kwargs2"
  shows "(case OpenAIClient_chat_completion srv c q1 m1 t1 f1 kwargs1 of (r1, c1, d1) \<Rightarrow>
          (case OpenAIClient_chat_completion srv c1 q2 m2 t2 f2 kwargs2 of (r2, c2, d2) \<Rightarrow>
             oa_messages c2 = oa_messages c @ [JObj [(''role'', JStr ''user''), (''content'', JStr q1)],
                    JObj [(''role'', JStr ''user''), (''content'', JStr q2)]]
             \<and> (\<forall>req \<in> set (new_requests (oa_client c1) (oa_client c2)).
                  payload_field req ''messages'' =
                    Some (JArr (oa_messages c @ [JObj [(''role'', JStr ''user''), (''content'', JStr q1)],
                    JObj [(''role'', JStr ''user''), (''content'', JStr q2)]])))
             \<and> (\<not> is_closed (oa_client c) \<and> 0 \<le> oa_max_retries c \<longrightarrow>
                  new_requests (oa_client c1) (oa_client c2) \<noteq> [])))
       \<and> (case PerplexityClient_chat_completion srv p q1 pm1 of (r1, p1, d1) \<Rightarrow>
          (case PerplexityClient_chat_completion srv p1 q2 pm2 of (r2, p2, d2) \<Rightarrow>
             pp_messages p2 = pp_messages p @ [JObj [(''role'', JStr ''user''), (''content'', JStr q1)],
                    JObj [(''role'', JStr ''user''), (''content'', JStr q2)]]
             \<and> (\<forall>req \<in> set (new_requests (pp_client p1) (pp_client p2)).
                  payload_field req ''messages'' =
                    Some (JArr (pp_messages p @ [JObj [(''role'', JStr ''user''), (''content'', JStr q1)],
                    JObj [(''role'', JStr ''user''), (''content'', JStr q2)]])))
             \<and> (\<not> is_closed (pp_client p) \<and> 0 \<le> pp_max_retries p \<longrightarrow>
                  new_requests (pp_client p1) (pp_client p2) \<noteq> [])))"
proof -
  obtain r1 c1 d1 where o1: "OpenAIClient_chat_completion srv c q1 m1 t1 f1 kwargs1 = (r1, c1, d1)"
    using prod_cases3 by blast
  obtain r2 c2 d2 where o2: "OpenAIClient_chat_completion srv c1 q2 m2 t2 f2 kwargs2 = (r2, c2, d2)"
    using prod_cases3 by blast
  obtain s1 p1 e1 where p1: "PerplexityClient_chat_completion srv p q1 pm1 = (s1, p1, e1)"
    using prod_cases3 by blast
  obtain s2 p2 e2 where p2: "PerplexityClient_chat_completion srv p1 q2 pm2 = (s2, p2, e2)"
    using prod_cases3 by blast
  from OpenAIClient_chat_completion_sent[OF o1] obtain k1 where
    a1: "oa_messages c1 = oa_messages c @ [JObj [(''role'', JStr ''user''), (''content'', JStr q1)]]"
        "oa_max_retries c1 = oa_max_retries c"
        "is_closed (oa_client c1) = is_closed (oa_client c)" by blast
  from OpenAIClient_chat_completion_sent[OF o2] obtain k2 where
    a2: "oa_messages c2 = oa_messages c1 @ [JObj [(''role'', JStr ''user''), (''content'', JStr q2)]]"
        "new_requests (oa_client c1) (oa_client c2) = replicate k2
              \<lparr>req_method = ''POST'',
               req_path = base_url (oa_settings c1) @ ''chat/completions'',
               req_json = Some (dict_update
                 [(''model'', JStr m2),
                  (''messages'', JArr (oa_messages c1 @ [JObj [(''role'', JStr ''user''), (''content'', JStr q2)]])),
                  (''temperature'', JFloat t2)] kwargs2),
               req_params = None\<rparr>"
        "\<not> is_closed (oa_client c1) \<and> 0 \<le> oa_max_retries c1 \<longrightarrow> 0 < k2" by blast
  from PerplexityClient_chat_completion_sent[OF p1] obtain j1 where
    b1: "pp_messages p1 = pp_messages p @ [JObj [(''role'', JStr ''user''), (''content'', JStr q1)]]"
        "pp_max_retries p1 = pp_max_retries p"
        "is_closed (pp_client p1) = is_closed (pp_client p)" by blast
  from PerplexityClient_chat_completion_sent[OF p2] obtain j2 where
    b2: "pp_messages p2 = pp_messages p1 @ [JObj [(''role'', JStr ''user''), (''content'', JStr q2)]]"
        "new_requests (pp_client p1) (pp_client p2) = replicate j2
              \<lparr>req_method = ''POST'',
               req_path = base_url (pp_settings p1) @ ''chat/completions'',
               req_json = Some [(''model'', JStr pm2),
                  (''messages'', JArr (pp_messages p1 @ [JObj [(''role'', JStr ''user''), (''content'', JStr q2)]]))],
               req_params = None\<rparr>"
        "\<not> is_closed (pp_client p1) \<and> 0 \<le> pp_max_retries p1 \<longrightarrow> 0 < j2" by blast
  have "oa_messages c2 = oa_messages c @ [JObj [(''role'', JStr ''user''), (''content'', JStr q1)],
                    JObj [(''role'', JStr ''user''), (''content'', JStr q2)]]"
    using a1 a2 by simp
  moreover have "\<forall>req \<in> set (new_requests (oa_client c1) (oa_client c2)).
      payload_field req ''messages'' =
        Some (JArr (oa_messages c @ [JObj [(''role'', JStr ''user''), (''content'', JStr q1)],
                    JObj [(''role'', JStr ''user''), (''content'', JStr q2)]]))"
    using assms a1 a2(2) by (simp add: payload_field_def map_of_dict_update)
  moreover have "\<not> is_closed (oa_client c) \<and> 0 \<le> oa_max_retries c \<longrightarrow>
      new_requests (oa_client c1) (oa_client c2) \<noteq> []"
    using a1 a2(2,3) by auto
  moreover have "pp_messages p2 = pp_messages p @ [JObj [(''role'', JStr ''user''), (''content'', JStr q1)],
                    JObj [(''role'', JStr ''user''), (''content'', JStr q2)]]"
    using b1 b2 by simp
  moreover have "\<forall>req \<in> set (new_requests (pp_client p1) (pp_client p2)).
      payload_field req ''messages'' =
        Some (JArr (pp_messages p @ [JObj [(''role'', JStr ''user''), (''content'', JStr q1)],
                    JObj [(''role'', JStr ''user''), (''content'', JStr q2)]]))"
    using b1 b2(2) by (simp add: payload_field_def)
  moreover have "\<not> is_closed (pp_client p) \<and> 0 \<le> pp_max_retries p \<longrightarrow>
      new_requests (pp_client p1) (pp_client p2) \<noteq> []"
    using b1 b2(2,3) by auto
  ultimately show ?thesis
    by (simp add: o1 o2 p1 p2)
qed

text \<open>A call whose first attempt is answered.\<close>

lemma OpenAIClient_chat_completion_answered:
  assumes "0 \<le> oa_max_retries self" and "\<not> is_closed (oa_client self)"
    and "srv (sent (oa_client self) @ [\<lparr>req_method = ''POST'',
               req_path = base_url (oa_settings self) @ ''chat/completions'',
               req_json = Some (dict_update
                 [(''model'', JStr model),
                  (''messages'', JArr (oa_messages self @ [user_turn query])),
                  (''temperature'', JFloat temperature)] kwargs),
               req_params = None\<rparr>]) = Inr body"
  shows "OpenAIClient_chat_completion srv self query model temperature flag kwargs =
      (Some (if flag then answer_of body else Inr body),
       self\<lparr>oa_messages := oa_messages self @ [user_turn query],
            oa_client := (oa_client self)\<lparr>sent := sent (oa_client self) @ [\<lparr>req_method = ''POST'',
               req_path = base_url (oa_settings self) @ ''chat/completions'',
               req_json = Some (dict_update
                 [(''model'', JStr model),
                  (''messages'', JArr (oa_messages self @ [user_turn query])),
                  (''temperature'', JFloat temperature)] kwargs),
               req_params = None\<rparr>]\<rparr>\<rparr>,
       [])"
  using assms
  by (simp add: OpenAIClient_chat_completion_def OpenAIClient_request_def Let_def
      request_first_attempt_returns)

lemma PerplexityClient_chat_completion_answered:
  assumes "0 \<le> pp_max_retries self" and "\<not> is_closed (pp_client self)"
    and "srv (sent (pp_client self) @ [\<lparr>req_method = ''POST'',
               req_path = base_url (pp_settings self) @ ''chat/completions'',
               req_json = Some [(''model'', JStr model),
                  (''messages'', JArr (pp_messages self @ [user_turn query]))],
               req_params = None\<rparr>]) = Inr body"
  shows "PerplexityClient_chat_completion srv self query model =
      (Some (Inr body),
       self\<lparr>pp_messages := pp_messages self @ [user_turn query],
            pp_client := (pp_client self)\<lparr>sent := sent (pp_client self) @ [\<lparr>req_method = ''POST'',
               req_path = base_url (pp_settings self) @ ''chat/completions'',
               req_json = Some [(''model'', JStr model),
                  (''messages'', JArr (pp_messages self @ [user_turn query]))],
               req_params = None\<rparr>]\<rparr>\<rparr>,
       [])"
  using assms
  by (simp add: PerplexityClient_chat_completion_def PerplexityClient_request_def Let_def
      request_first_attempt_returns)

theorem chat_completion_accumulates_witness:
  "(let srv = (\<lambda>log. Inr (JObj [(''id'', JStr ''r'')]));
        c = OpenAIClient_of (OpenAISettings_defaults\<lparr>api_key := ''sk-test''\<rparr>);
        c1 = fst (snd (OpenAIClient_chat_completion srv c ''one'' ''gpt-4.1-nano'' (17 / 20) False []));
        c2 = fst (snd (OpenAIClient_chat_completion srv c1 ''two'' ''gpt-4.1-nano'' (17 / 20) False []))
    in oa_messages c2 = [JObj [(''role'', JStr ''system''), (''content'', JStr default_system_prompt)],
                    JObj [(''role'', JStr ''user''), (''content'', JStr ''one'')],
                         JObj [(''role'', JStr ''user''), (''content'', JStr ''two'')]]
       \<and> map (\<lambda>req. payload_field req ''messages'') (new_requests (oa_client c1) (oa_client c2)) =
           [Some (JArr [JObj [(''role'', JStr ''system''), (''content'', JStr default_system_prompt)],
                    JObj [(''role'', JStr ''user''), (''content'', JStr ''one'')],
                        JObj [(''role'', JStr ''user''), (''content'', JStr ''two'')]])])
   \<and> (let srv = (\<lambda>log. Inr (JObj [(''id'', JStr ''r'')]));
        p = PerplexityClient_of (PerplexitySettings_defaults\<lparr>api_key := ''sk-test''\<rparr>);
        p1 = fst (snd (PerplexityClient_chat_completion srv p ''one'' ''sonar''));
        p2 = fst (snd (PerplexityClient_chat_completion srv p1 ''two'' ''sonar''))
    in pp_messages p2 = [JObj [(''role'', JStr ''system''), (''content'', JStr default_system_prompt)],
                    JObj [(''role'', JStr ''user''), (''content'', JStr ''one'')],
                         JObj [(''role'', JStr ''user''), (''content'', JStr ''two'')]]
       \<and> map (\<lambda>req. payload_field req ''messages'') (new_requests (pp_client p1) (pp_client p2)) =
           [Some (JArr [JObj [(''role'', JStr ''system''), (''content'', JStr default_system_prompt)],
                    JObj [(''role'', JStr ''user''), (''content'', JStr ''one'')],
                        JObj [(''role'', JStr ''user''), (''content'', JStr ''two'')]])])"
proof -
  let ?srv = "(\<lambda>log. Inr (JObj [(''id'', JStr ''r'')])) :: server"
  let ?c = "OpenAIClient_of (OpenAISettings_defaults\<lparr>api_key := ''sk-test''\<rparr>)"
  let ?p = "PerplexityClient_of (PerplexitySettings_defaults\<lparr>api_key := ''sk-test''\<rparr>)"
  have no_kw: "''messages'' \<notin> fst ` set ([] :: (string \<times> json) list)" by simp
  note inst = chat_completion_accumulates [OF no_kw, where srv = ?srv and c = ?c and p = ?p
      and ?q1.0 = "''one''" and ?q2.0 = "''two''"
      and ?m1.0 = "''gpt-4.1-nano''" and ?m2.0 = "''gpt-4.1-nano''"
      and ?t1.0 = "17 / 20" and ?t2.0 = "17 / 20" and ?f1.0 = False and ?f2.0 = False
      and ?kwargs1.0 = "[]" and ?pm1.0 = "''sonar''" and ?pm2.0 = "''sonar''"]
  obtain c1 where c1: "OpenAIClient_chat_completion ?srv ?c ''one'' ''gpt-4.1-nano'' (17 / 20) False []
      = (Some (Inr (JObj [(''id'', JStr ''r'')])), c1, [])"
    by (simp add: OpenAIClient_chat_completion_answered OpenAIClient_of_simps is_ascii_def
        OpenAISettings_defaults_def)
  have c1': "oa_messages c1 = [JObj [(''role'', JStr ''system''), (''content'', JStr default_system_prompt)],
                    JObj [(''role'', JStr ''user''), (''content'', JStr ''one'')]]"
    "oa_max_retries c1 = 5" "\<not> is_closed (oa_client c1)"
    using OpenAIClient_chat_completion_sent[OF c1]
    by (auto simp: OpenAIClient_of_simps is_ascii_def
        OpenAISettings_defaults_def)
  obtain c2 where c2: "OpenAIClient_chat_completion ?srv c1 ''two'' ''gpt-4.1-nano'' (17 / 20) False []
      = (Some (Inr (JObj [(''id'', JStr ''r'')])), c2, [])"
    and n2: "new_requests (oa_client c1) (oa_client c2) = [\<lparr>req_method = ''POST'',
               req_path = base_url (oa_settings c1) @ ''chat/completions'',
               req_json = Some (dict_update
                 [(''model'', JStr ''gpt-4.1-nano''),
                  (''messages'', JArr (oa_messages c1 @ [JObj [(''role'', JStr ''user''), (''content'', JStr ''two'')]])),
                  (''temperature'', JFloat (17 / 20))] []),
               req_params = None\<rparr>]"
    using c1' by (simp add: OpenAIClient_chat_completion_answered new_requests_append)
  obtain p1 where p1: "PerplexityClient_chat_completion ?srv ?p ''one'' ''sonar''
      = (Some (Inr (JObj [(''id'', JStr ''r'')])), p1, [])"
    by (simp add: PerplexityClient_chat_completion_answered PerplexityClient_of_simps is_ascii_def
        PerplexitySettings_defaults_def)
  have p1': "pp_messages p1 = [JObj [(''role'', JStr ''system''), (''content'', JStr default_system_prompt)],
                    JObj [(''role'', JStr ''user''), (''content'', JStr ''one'')]]"
    "pp_max_retries p1 = 5" "\<not> is_closed (pp_client p1)"
    using PerplexityClient_chat_completion_sent[OF p1]
    by (auto simp: PerplexityClient_of_simps is_ascii_def PerplexitySettings_defaults_def)
  obtain p2 where p2: "PerplexityClient_chat_completion ?srv p1 ''two'' ''sonar''
      = (Some (Inr (JObj [(''id'', JStr ''r'')])), p2, [])"
    and m2: "new_requests (pp_client p1) (pp_client p2) = [\<lparr>req_method = ''POST'',
               req_path = base_url (pp_settings p1) @ ''chat/completions'',
               req_json = Some [(''model'', JStr ''sonar''),
                  (''messages'', JArr (pp_messages p1 @ [JObj [(''role'', JStr ''user''), (''content'', JStr ''two'')]]))],
               req_params = None\<rparr>]"
    using p1' by (simp add: PerplexityClient_chat_completion_answered new_requests_append)
  show ?thesis
    using inst
    by (simp add: c1 c2 n2 p1 p2 m2 c1' p1' payload_field_def OpenAIClient_of_simps
        PerplexityClient_of_simps is_ascii_def)
qed
text \<open>
  Claim C6 as stated covers every second call. \<open>OpenAIClient\<close> merges the caller's extra
  keyword arguments into the payload last (\<^verbatim>\<open>payload.update(kwargs)\<close>): a second call
  \<^verbatim>\<open>chat_completion('two', messages=[])\<close> sends a payload whose \<^verbatim>\<open>messages\<close> is the empty
  list, with neither user turn in it, while the history of the client holds both.
\<close>

theorem chat_completion_accumulates_counterexample:
  "(let srv = (\<lambda>log. Inr (JObj [(''id'', JStr ''r'')]));
        c = OpenAIClient_of (OpenAISettings_defaults\<lparr>api_key := ''sk-test''\<rparr>);
        c1 = fst (snd (OpenAIClient_chat_completion srv c ''one'' ''gpt-4.1-nano'' (17 / 20) False []));
        c2 = fst (snd (OpenAIClient_chat_completion srv c1 ''two'' ''gpt-4.1-nano'' (17 / 20) False
                         [(''messages'', JArr [])]))
    in map (\<lambda>req. payload_field req ''messages'') (new_requests (oa_client c1) (oa_client c2)) =
         [Some (JArr [])]
       \<and> oa_messages c2 =
           [JObj [(''role'', JStr ''system''), (''content'', JStr default_system_prompt)],
            JObj [(''role'', JStr ''user''), (''content'', JStr ''one'')],
            JObj [(''role'', JStr ''user''), (''content'', JStr ''two'')]])"
proof -
  let ?srv = "(\<lambda>log. Inr (JObj [(''id'', JStr ''r'')])) :: server"
  let ?c = "OpenAIClient_of (OpenAISettings_defaults\<lparr>api_key := ''sk-test''\<rparr>)"
  obtain c1 where c1: "OpenAIClient_chat_completion ?srv ?c ''one'' ''gpt-4.1-nano'' (17 / 20) False []
      = (Some (Inr (JObj [(''id'', JStr ''r'')])), c1, [])"
    by (simp add: OpenAIClient_chat_completion_answered OpenAIClient_of_simps is_ascii_def
        OpenAISettings_defaults_def)
  have c1': "oa_messages c1 = [system_turn, user_turn ''one'']"
    "oa_max_retries c1 = 5" "\<not> is_closed (oa_client c1)"
    using OpenAIClient_chat_completion_sent[OF c1]
    by (auto simp: OpenAIClient_of_simps is_ascii_def OpenAISettings_defaults_def)
  obtain c2 where c2: "OpenAIClient_chat_completion ?srv c1 ''two'' ''gpt-4.1-nano'' (17 / 20) False
        [(''messages'', JArr [])]
      = (Some (Inr (JObj [(''id'', JStr ''r'')])), c2, [])"
    and n2: "new_requests (oa_client c1) (oa_client c2) = [\<lparr>req_method = ''POST'',
               req_path = base_url (oa_settings c1) @ ''chat/completions'',
               req_json = Some (dict_update
                 [(''model'', JStr ''gpt-4.1-nano''),
                  (''messages'', JArr (oa_messages c1 @ [user_turn ''two''])),
                  (''temperature'', JFloat (17 / 20))] [(''messages'', JArr [])]),
               req_params = None\<rparr>]"
    and h2: "oa_messages c2 = oa_messages c1 @ [user_turn ''two'']"
    using c1' by (simp add: OpenAIClient_chat_completion_answered new_requests_append)
  show ?thesis
    by (simp add: c1 c2 n2 h2 c1' payload_field_def)
qed

section \<open>A turn that failed stays in the history\<close>

text \<open>
  \<open>AnthropicClient.chat_completion\<close>, whatever it returns or raises: the history has grown
  by the user turn; the payload of every request sent holds that history under
  \<^verbatim>\<open>messages\<close> and the system prompt under \<^verbatim>\<open>system\<close>, unless the caller's extra keyword
  arguments replace those entries.
\<close>

lemma AnthropicClient_chat_completion_sent:
  assumes "AnthropicClient_chat_completion srv self q m mt t ss kw = (r, self', ds)"
  shows "\<exists>k payload.
         an_messages self' = an_messages self @ [user_turn q]
       \<and> an_system_prompt self' = an_system_prompt self
       \<and> an_max_retries self' = an_max_retries self
       \<and> is_closed (an_client self') = is_closed (an_client self)
       \<and> new_requests (an_client self) (an_client self') = replicate k
              \<lparr>req_method = ''POST'',
               req_path = base_url (an_settings self) @ ''messages'',
               req_json = Some payload,
               req_params = None\<rparr>
       \<and> (''messages'' \<notin> fst ` set kw \<longrightarrow>
            map_of payload ''messages'' = Some (JArr (an_messages self @ [user_turn q])))
       \<and> (''system'' \<notin> fst ` set kw \<longrightarrow>
            map_of payload ''system'' = Some (JStr (an_system_prompt self)))
       \<and> (\<not> is_closed (an_client self) \<and> 0 \<le> an_max_retries self \<longrightarrow> 0 < k)"
proof -
  let ?self1 = "self\<lparr>an_messages := an_messages self @ [user_turn q]\<rparr>"
  let ?p0 = "[(''model'', JStr m), (''system'', JStr (an_system_prompt self)),
              (''messages'', JArr (an_messages self @ [user_turn q]))]"
  let ?p1 = "case mt of None \<Rightarrow> ?p0 | Some n \<Rightarrow> dict_set ''max_tokens'' (JInt n) ?p0"
  let ?p2 = "case t of None \<Rightarrow> ?p1 | Some x \<Rightarrow> dict_set ''temperature'' (JFloat x) ?p1"
  let ?p3 = "case ss of None \<Rightarrow> ?p2 | Some xs \<Rightarrow> dict_set ''stop_sequences'' (JArr (map JStr xs)) ?p2"
  let ?payload = "dict_update ?p3 kw"
  let ?req = "\<lparr>req_method = ''POST'', req_path = base_url (an_settings self) @ ''messages'',
               req_json = Some ?payload, req_params = None\<rparr>"
  have p3: "map_of ?p3 ''messages'' = Some (JArr (an_messages self @ [user_turn q]))"
      "map_of ?p3 ''system'' = Some (JStr (an_system_prompt self))"
    by (simp_all add: map_of_dict_set split: option.splits)
  obtain r0 h ds0 where rq: "request_loop srv (backoff_int (an_backoff_factor self))
      (an_max_retries self) ?req [0..an_max_retries self] (an_client self) = (r0, h, ds0)"
    using prod_cases3 by blast
  from request_loop_sent[OF rq] obtain k where
    k: "h = (an_client self)\<lparr>sent := sent (an_client self) @ replicate k ?req\<rparr>"
       "\<not> is_closed (an_client self) \<and> [0..an_max_retries self] \<noteq> [] \<longrightarrow> 0 < k" by blast
  have "self' = ?self1\<lparr>an_client := h\<rparr>"
    using assms rq
    by (cases mt; cases t; cases ss)
       (auto simp: AnthropicClient_chat_completion_def AnthropicClient_request_def Let_def)
  with k p3 show ?thesis
    by (intro exI[of _ k] exI[of _ ?payload])
       (simp add: new_requests_append upto_nonempty map_of_dict_update)
qed

text \<open>
  The delay of the int clients is never infinite, so their calls always return or raise.
\<close>

lemma AnthropicClient_request_returns:
  "fst (AnthropicClient_request srv self meth path js) \<noteq> None"
  unfolding AnthropicClient_request_def
  by (rule request_loop_terminates) (rule backoff_int_finite)

lemma AnthropicClient_chat_completion_returns:
  "fst (AnthropicClient_chat_completion srv self q m mt t ss kw) \<noteq> None"
proof -
  have outcome: "fst (case p of (r, h, d) \<Rightarrow> (r, g h, d)) = fst p"
    for p :: "json result option \<times> http_client \<times> py_float list" and g :: "http_client \<Rightarrow> AnthropicClient"
    by (cases p) simp
  show ?thesis
    unfolding AnthropicClient_chat_completion_def Let_def outcome
    by (rule AnthropicClient_request_returns)
qed

text \<open>Later calls only add to the history.\<close>

lemma OpenAIClient_calls_messages:
  "\<exists>ms. oa_messages (OpenAIClient_calls srv c xs) = oa_messages c @ ms"
proof (induction xs arbitrary: c)
  case Nil
  then show ?case by simp
next
  case (Cons x xs)
  obtain r c1 d where c1: "OpenAIClient_call srv c x = (r, c1, d)"
    using prod_cases3 by blast
  then have h1: "oa_messages c1 = oa_messages c @ [user_turn (oc_query x)]"
    using OpenAIClient_chat_completion_sent unfolding OpenAIClient_call_def by blast
  show ?case
  proof (cases r)
    case None
    with c1 h1 show ?thesis by simp
  next
    case (Some v)
    obtain ms where "oa_messages (OpenAIClient_calls srv c1 xs) = oa_messages c1 @ ms"
      using Cons.IH by blast
    with c1 h1 Some show ?thesis by simp
  qed
qed

lemma AnthropicClient_calls_messages:
  "an_messages (AnthropicClient_calls srv c xs) =
     an_messages c @ map (\<lambda>y. user_turn (ac_query y)) xs
   \<and> an_system_prompt (AnthropicClient_calls srv c xs) = an_system_prompt c
   \<and> an_max_retries (AnthropicClient_calls srv c xs) = an_max_retries c
   \<and> is_closed (an_client (AnthropicClient_calls srv c xs)) = is_closed (an_client c)"
proof (induction xs arbitrary: c)
  case Nil
  then show ?case by simp
next
  case (Cons x xs)
  obtain r c1 d where c1: "AnthropicClient_call srv c x = (r, c1, d)"
    using prod_cases3 by blast
  then have "an_messages c1 = an_messages c @ [user_turn (ac_query x)]"
    "an_system_prompt c1 = an_system_prompt c" "an_max_retries c1 = an_max_retries c"
    "is_closed (an_client c1) = is_closed (an_client c)"
    using AnthropicClient_chat_completion_sent unfolding AnthropicClient_call_def by blast+
  moreover obtain v where "r = Some v"
    using AnthropicClient_chat_completion_returns[of srv c "ac_query x" "ac_model x"
        "ac_max_tokens x" "ac_temperature x" "ac_stop_sequences x" "ac_kwargs x"] c1
    by (auto simp: AnthropicClient_call_def)
  ultimately show ?case using c1 Cons.IH[of c1] by simp
qed

text \<open>
  Claim C10, as amended: \<^verbatim>\<open>chat_completion\<close> appends the user turn before it sends anything
  and never takes it back. However the call ends (so also when the request fails, with a
  terminal failure or with the retries exhausted), the history afterwards ends with
  \<^verbatim>\<open>{"role": "user", "content": query}\<close>; the requests of the call itself already carry it;
  and after any further calls on the same instance, every request of a next call that
  passes no \<^verbatim>\<open>messages\<close> keyword argument of its own carries it again in its \<^verbatim>\<open>messages\<close>.
  For \<open>OpenAIClient\<close> and \<open>AnthropicClient\<close>.
\<close>

theorem failed_turn_stays:
  "(case OpenAIClient_chat_completion srv c query model temperature flag kwargs of (r, c1, d) \<Rightarrow>
      oa_messages c1 = oa_messages c @ [JObj [(''role'', JStr ''user''), (''content'', JStr query)]]
      \<and> (''messages'' \<notin> fst ` set kwargs \<longrightarrow>
           (\<forall>req \<in> set (new_requests (oa_client c) (oa_client c1)).
              payload_field req ''messages'' = Some (JArr (oa_messages c @ [JObj [(''role'', JStr ''user''), (''content'', JStr query)]]))))
      \<and> (\<forall>xs x. ''messages'' \<notin> fst ` set (oc_kwargs x) \<longrightarrow>
           (\<forall>req \<in> set (new_requests (oa_client (OpenAIClient_calls srv c1 xs))
                              (oa_client (fst (snd (OpenAIClient_call srv (OpenAIClient_calls srv c1 xs) x))))).
              \<exists>ms. payload_field req ''messages'' = Some (JArr ms) \<and> JObj [(''role'', JStr ''user''), (''content'', JStr query)] \<in> set ms)))
   \<and> (case AnthropicClient_chat_completion srv a query amodel max_tokens temp stop_sequences akwargs of
       (r, a1, d) \<Rightarrow>
      an_messages a1 = an_messages a @ [JObj [(''role'', JStr ''user''), (''content'', JStr query)]]
      \<and> (''messages'' \<notin> fst ` set akwargs \<longrightarrow>
           (\<forall>req \<in> set (new_requests (an_client a) (an_client a1)).
              payload_field req ''messages'' = Some (JArr (an_messages a @ [JObj [(''role'', JStr ''user''), (''content'', JStr query)]]))))
      \<and> (\<forall>xs x. ''messages'' \<notin> fst ` set (ac_kwargs x) \<longrightarrow>
           (\<forall>req \<in> set (new_requests (an_client (AnthropicClient_calls srv a1 xs))
                              (an_client (fst (snd (AnthropicClient_call srv (AnthropicClient_calls srv a1 xs) x))))).
              \<exists>ms. payload_field req ''messages'' = Some (JArr ms) \<and> JObj [(''role'', JStr ''user''), (''content'', JStr query)] \<in> set ms)))"
proof -
  obtain r c1 d where c1: "OpenAIClient_chat_completion srv c query model temperature flag kwargs = (r, c1, d)"
    using prod_cases3 by blast
  from OpenAIClient_chat_completion_sent[OF c1] obtain k where
    h1: "oa_messages c1 = oa_messages c @ [JObj [(''role'', JStr ''user''), (''content'', JStr query)]]"
    and n1: "new_requests (oa_client c) (oa_client c1) = replicate k
              \<lparr>req_method = ''POST'',
               req_path = base_url (oa_settings c) @ ''chat/completions'',
               req_json = Some (dict_update
                 [(''model'', JStr model),
                  (''messages'', JArr (oa_messages c @ [JObj [(''role'', JStr ''user''), (''content'', JStr query)]])),
                  (''temperature'', JFloat temperature)] kwargs),
               req_params = None\<rparr>" by blast
  have o2: "''messages'' \<notin> fst ` set kwargs \<longrightarrow>
           (\<forall>req \<in> set (new_requests (oa_client c) (oa_client c1)).
              payload_field req ''messages'' = Some (JArr (oa_messages c @ [JObj [(''role'', JStr ''user''), (''content'', JStr query)]])))"
    using n1 by (simp add: payload_field_def map_of_dict_update)
  have o3: "\<exists>ms. payload_field req ''messages'' = Some (JArr ms) \<and> JObj [(''role'', JStr ''user''), (''content'', JStr query)] \<in> set ms"
    if kw: "''messages'' \<notin> fst ` set (oc_kwargs x)"
      and req: "req \<in> set (new_requests (oa_client (OpenAIClient_calls srv c1 xs))
                  (oa_client (fst (snd (OpenAIClient_call srv (OpenAIClient_calls srv c1 xs) x)))))"
    for xs x req
  proof -
    let ?c2 = "OpenAIClient_calls srv c1 xs"
    obtain ms where ms: "oa_messages ?c2 = oa_messages c1 @ ms"
      using OpenAIClient_calls_messages by blast
    obtain r3 c3 d3 where c3: "OpenAIClient_call srv ?c2 x = (r3, c3, d3)"
      using prod_cases3 by blast
    from OpenAIClient_chat_completion_sent[OF c3[unfolded OpenAIClient_call_def]] obtain j where
      "new_requests (oa_client ?c2) (oa_client c3) = replicate j
              \<lparr>req_method = ''POST'',
               req_path = base_url (oa_settings ?c2) @ ''chat/completions'',
               req_json = Some (dict_update
                 [(''model'', JStr (oc_model x)),
                  (''messages'', JArr (oa_messages ?c2 @ [JObj [(''role'', JStr ''user''), (''content'', JStr (oc_query x))]])),
                  (''temperature'', JFloat (oc_temperature x))] (oc_kwargs x)),
               req_params = None\<rparr>" by blast
    with req c3 kw have "payload_field req ''messages'' =
        Some (JArr (oa_messages ?c2 @ [JObj [(''role'', JStr ''user''), (''content'', JStr (oc_query x))]]))"
      by (auto simp: payload_field_def map_of_dict_update)
    with ms h1 show ?thesis by simp
  qed
  obtain s a1 e where a1: "AnthropicClient_chat_completion srv a query amodel max_tokens temp
      stop_sequences akwargs = (s, a1, e)"
    using prod_cases3 by blast
  from AnthropicClient_chat_completion_sent[OF a1] obtain k' payload where
    g1: "an_messages a1 = an_messages a @ [JObj [(''role'', JStr ''user''), (''content'', JStr query)]]"
    and m1: "new_requests (an_client a) (an_client a1) = replicate k'
              \<lparr>req_method = ''POST'', req_path = base_url (an_settings a) @ ''messages'',
               req_json = Some payload, req_params = None\<rparr>"
    and pl: "''messages'' \<notin> fst ` set akwargs \<longrightarrow>
            map_of payload ''messages'' = Some (JArr (an_messages a @ [JObj [(''role'', JStr ''user''), (''content'', JStr query)]]))"
    by blast
  have b2: "''messages'' \<notin> fst ` set akwargs \<longrightarrow>
           (\<forall>req \<in> set (new_requests (an_client a) (an_client a1)).
              payload_field req ''messages'' = Some (JArr (an_messages a @ [JObj [(''role'', JStr ''user''), (''content'', JStr query)]])))"
    using m1 pl by (simp add: payload_field_def)
  have b3: "\<exists>ms. payload_field req ''messages'' = Some (JArr ms) \<and> JObj [(''role'', JStr ''user''), (''content'', JStr query)] \<in> set ms"
    if kw: "''messages'' \<notin> fst ` set (ac_kwargs x)"
      and req: "req \<in> set (new_requests (an_client (AnthropicClient_calls srv a1 xs))
                  (an_client (fst (snd (AnthropicClient_call srv (AnthropicClient_calls srv a1 xs) x)))))"
    for xs x req
  proof -
    let ?a2 = "AnthropicClient_calls srv a1 xs"
    have ms: "an_messages ?a2 = an_messages a1 @ map (\<lambda>y. JObj [(''role'', JStr ''user''), (''content'', JStr (ac_query y))]) xs"
      using AnthropicClient_calls_messages by blast
    obtain r3 a3 d3 where a3: "AnthropicClient_call srv ?a2 x = (r3, a3, d3)"
      using prod_cases3 by blast
    from AnthropicClient_chat_completion_sent[OF a3[unfolded AnthropicClient_call_def]]
    obtain j pl3 where
      "new_requests (an_client ?a2) (an_client a3) = replicate j
              \<lparr>req_method = ''POST'', req_path = base_url (an_settings ?a2) @ ''messages'',
               req_json = Some pl3, req_params = None\<rparr>"
      "''messages'' \<notin> fst ` set (ac_kwargs x) \<longrightarrow>
            map_of pl3 ''messages'' = Some (JArr (an_messages ?a2 @ [JObj [(''role'', JStr ''user''), (''content'', JStr (ac_query x))]]))"
      by blast
    with req a3 kw have "payload_field req ''messages'' =
        Some (JArr (an_messages ?a2 @ [JObj [(''role'', JStr ''user''), (''content'', JStr (ac_query x))]]))"
      by (auto simp: payload_field_def)
    with ms g1 show ?thesis by simp
  qed
  show ?thesis
    using h1 o2 o3 g1 b2 b3 by (simp add: c1 a1)
qed

text \<open>A first attempt that is not retried ends the loop with what the server said.\<close>

lemma request_first_attempt_final:
  assumes "0 \<le> mr" and "\<not> is_closed h"
    and "\<forall>e. srv (sent h @ [req]) = Inl e \<longrightarrow> \<not> retried 0 mr e"
  shows "request_loop srv backoff mr req [0..mr] h =
           (Some (srv (sent h @ [req])), h\<lparr>sent := sent h @ [req]\<rparr>, [])"
proof -
  have up: "[0..mr] = 0 # [0 + 1..mr]" using assms(1) by (simp add: upto_rec1)
  show ?thesis
  proof (cases "srv (sent h @ [req])")
    case (Inl e)
    with assms show ?thesis unfolding up by (simp add: request_loop_raise)
  next
    case (Inr body)
    with assms show ?thesis unfolding up by (simp add: request_loop_return)
  qed
qed

theorem failed_turn_stays_witness:
  "(let srv = (\<lambda>log. Inl (HTTPStatusError 401));
        c = OpenAIClient_of (OpenAISettings_defaults\<lparr>api_key := ''sk-test''\<rparr>);
        r1 = OpenAIClient_chat_completion srv c ''one'' ''gpt-4.1-nano'' (17 / 20) False [];
        c1 = fst (snd r1);
        c2 = fst (snd (OpenAIClient_call srv c1
               \<lparr>oc_query = ''two'', oc_model = ''gpt-4.1-nano'', oc_temperature = 17 / 20,
                oc_return_only_answer = False, oc_kwargs = []\<rparr>))
    in fst r1 = Some (Inl (HTTPStatusError 401))
       \<and> oa_messages c1 = [JObj [(''role'', JStr ''system''), (''content'', JStr default_system_prompt)],
                    JObj [(''role'', JStr ''user''), (''content'', JStr ''one'')]]
       \<and> map (\<lambda>req. payload_field req ''messages'') (new_requests (oa_client c1) (oa_client c2)) =
           [Some (JArr [JObj [(''role'', JStr ''system''), (''content'', JStr default_system_prompt)],
                    JObj [(''role'', JStr ''user''), (''content'', JStr ''one'')],
                        JObj [(''role'', JStr ''user''), (''content'', JStr ''two'')]])])
   \<and> (let srv = (\<lambda>log. Inl (HTTPStatusError 401));
        a = AnthropicClient_of [] (AnthropicSettings_defaults\<lparr>api_key := ''sk-test''\<rparr>);
        r1 = AnthropicClient_chat_completion srv a ''one'' ''claude-sonnet-4-5-20250929''
               (Some 4096) None None [];
        a1 = fst (snd r1);
        a2 = fst (snd (AnthropicClient_call srv a1
               \<lparr>ac_query = ''two'', ac_model = ''claude-sonnet-4-5-20250929'',
                ac_max_tokens = Some 4096, ac_temperature = None, ac_stop_sequences = None,
                ac_kwargs = []\<rparr>))
    in fst r1 = Some (Inl (HTTPStatusError 401))
       \<and> an_messages a1 = [JObj [(''role'', JStr ''user''), (''content'', JStr ''one'')]]
       \<and> map (\<lambda>req. payload_field req ''messages'') (new_requests (an_client a1) (an_client a2)) =
           [Some (JArr [JObj [(''role'', JStr ''user''), (''content'', JStr ''one'')],
                    JObj [(''role'', JStr ''user''), (''content'', JStr ''two'')]])])"
proof -
  let ?srv = "(\<lambda>log. Inl (HTTPStatusError 401)) :: server"
  let ?c = "OpenAIClient_of (OpenAISettings_defaults\<lparr>api_key := ''sk-test''\<rparr>)"
  let ?a = "AnthropicClient_of [] (AnthropicSettings_defaults\<lparr>api_key := ''sk-test''\<rparr>)"
  let ?x = "\<lparr>oc_query = ''two'', oc_model = ''gpt-4.1-nano'', oc_temperature = 17 / 20,
                oc_return_only_answer = False, oc_kwargs = []\<rparr>"
  let ?y = "\<lparr>ac_query = ''two'', ac_model = ''claude-sonnet-4-5-20250929'',
                ac_max_tokens = Some 4096, ac_temperature = None, ac_stop_sequences = None,
                ac_kwargs = []\<rparr>"
  note inst = failed_turn_stays [where srv = ?srv and c = ?c and a = ?a and query = "''one''"
      and model = "''gpt-4.1-nano''" and temperature = "17 / 20" and flag = False
      and kwargs = "[]" and amodel = "''claude-sonnet-4-5-20250929''" and akwargs = "[]"
      and max_tokens = "Some 4096" and temp = None and stop_sequences = None]
  obtain c1 where c1: "OpenAIClient_chat_completion ?srv ?c ''one'' ''gpt-4.1-nano'' (17 / 20) False []
      = (Some (Inl (HTTPStatusError 401)), c1, [])"
    by (simp add: OpenAIClient_chat_completion_def OpenAIClient_request_def Let_def
        request_first_attempt_final OpenAIClient_of_simps is_ascii_def OpenAISettings_defaults_def
        retriable_status_def)
  have c1': "oa_messages c1 = [JObj [(''role'', JStr ''system''), (''content'', JStr default_system_prompt)],
                    JObj [(''role'', JStr ''user''), (''content'', JStr ''one'')]]"
    "oa_max_retries c1 = 5" "\<not> is_closed (oa_client c1)"
    using OpenAIClient_chat_completion_sent[OF c1]
    by (auto simp: OpenAIClient_of_simps is_ascii_def OpenAISettings_defaults_def)
  obtain c2 where c2: "OpenAIClient_call ?srv c1 ?x = (Some (Inl (HTTPStatusError 401)), c2, [])"
    and n2: "new_requests (oa_client c1) (oa_client c2) = [\<lparr>req_method = ''POST'',
               req_path = base_url (oa_settings c1) @ ''chat/completions'',
               req_json = Some
                 [(''model'', JStr ''gpt-4.1-nano''),
                  (''messages'', JArr (oa_messages c1 @ [JObj [(''role'', JStr ''user''), (''content'', JStr ''two'')]])),
                  (''temperature'', JFloat (17 / 20))],
               req_params = None\<rparr>]"
    using c1'
    by (simp add: OpenAIClient_call_def OpenAIClient_chat_completion_def OpenAIClient_request_def
        Let_def request_first_attempt_final retriable_status_def new_requests_append)
  obtain a1 where a1: "AnthropicClient_chat_completion ?srv ?a ''one'' ''claude-sonnet-4-5-20250929''
      (Some 4096) None None [] = (Some (Inl (HTTPStatusError 401)), a1, [])"
    by (simp add: AnthropicClient_chat_completion_def AnthropicClient_request_def Let_def
        request_first_attempt_final AnthropicClient_of_simps is_ascii_def AnthropicSettings_defaults_def
        retriable_status_def)
  have a1': "an_messages a1 = [JObj [(''role'', JStr ''user''), (''content'', JStr ''one'')]]"
    "an_max_retries a1 = 5" "\<not> is_closed (an_client a1)"
    using AnthropicClient_chat_completion_sent[OF a1]
    by (auto simp: AnthropicClient_of_simps is_ascii_def AnthropicSettings_defaults_def)
  obtain a2 where a2: "AnthropicClient_call ?srv a1 ?y = (Some (Inl (HTTPStatusError 401)), a2, [])"
    and m2: "map (\<lambda>req. payload_field req ''messages'') (new_requests (an_client a1) (an_client a2))
       = [Some (JArr (an_messages a1 @ [JObj [(''role'', JStr ''user''), (''content'', JStr ''two'')]]))]"
    using a1'
    by (simp add: AnthropicClient_call_def AnthropicClient_chat_completion_def
        AnthropicClient_request_def Let_def request_first_attempt_final retriable_status_def
        new_requests_append payload_field_def)
  have n2': "map (\<lambda>req. payload_field req ''messages'') (new_requests (oa_client c1) (oa_client c2))
       = [Some (JArr (oa_messages c1 @ [JObj [(''role'', JStr ''user''), (''content'', JStr ''two'')]]))]"
    by (simp add: n2 payload_field_def)
  show ?thesis
    using inst
    by (simp add: c1 c2 n2' a1 a2 m2 c1' a1' Let_def)
qed

text \<open>
  Claim C10 as stated has the failed turn in the payload of every later call. Both clients
  merge the caller's extra keyword arguments into the payload last: after a
  \<^verbatim>\<open>chat_completion('one')\<close> that failed with status 401, the call
  \<^verbatim>\<open>chat_completion('two', messages=[])\<close> sends a payload whose \<^verbatim>\<open>messages\<close> is the empty
  list, without the failed turn.
\<close>

theorem failed_turn_stays_counterexample:
  "(let srv = (\<lambda>log. Inl (HTTPStatusError 401));
        c = OpenAIClient_of (OpenAISettings_defaults\<lparr>api_key := ''sk-test''\<rparr>);
        r1 = OpenAIClient_chat_completion srv c ''one'' ''gpt-4.1-nano'' (17 / 20) False [];
        c1 = fst (snd r1);
        c2 = fst (snd (OpenAIClient_call srv c1
               \<lparr>oc_query = ''two'', oc_model = ''gpt-4.1-nano'', oc_temperature = 17 / 20,
                oc_return_only_answer = False, oc_kwargs = [(''messages'', JArr [])]\<rparr>))
    in fst r1 = Some (Inl (HTTPStatusError 401))
       \<and> map (\<lambda>req. payload_field req ''messages'') (new_requests (oa_client c1) (oa_client c2)) =
           [Some (JArr [])])
   \<and> (let srv = (\<lambda>log. Inl (HTTPStatusError 401));
        a = AnthropicClient_of [] (AnthropicSettings_defaults\<lparr>api_key := ''sk-test''\<rparr>);
        r1 = AnthropicClient_chat_completion srv a ''one'' ''claude-sonnet-4-5-20250929''
               (Some 4096) None None [];
        a1 = fst (snd r1);
        a2 = fst (snd (AnthropicClient_call srv a1
               \<lparr>ac_query = ''two'', ac_model = ''claude-sonnet-4-5-20250929'',
                ac_max_tokens = Some 4096, ac_temperature = None, ac_stop_sequences = None,
                ac_kwargs = [(''messages'', JArr [])]\<rparr>))
    in fst r1 = Some (Inl (HTTPStatusError 401))
       \<and> map (\<lambda>req. payload_field req ''messages'') (new_requests (an_client a1) (an_client a2)) =
           [Some (JArr [])])"
proof -
  let ?srv = "(\<lambda>log. Inl (HTTPStatusError 401)) :: server"
  let ?c = "OpenAIClient_of (OpenAISettings_defaults\<lparr>api_key := ''sk-test''\<rparr>)"
  let ?a = "AnthropicClient_of [] (AnthropicSettings_defaults\<lparr>api_key := ''sk-test''\<rparr>)"
  let ?x = "\<lparr>oc_query = ''two'', oc_model = ''gpt-4.1-nano'', oc_temperature = 17 / 20,
                oc_return_only_answer = False, oc_kwargs = [(''messages'', JArr [])]\<rparr>"
  let ?y = "\<lparr>ac_query = ''two'', ac_model = ''claude-sonnet-4-5-20250929'',
                ac_max_tokens = Some 4096, ac_temperature = None, ac_stop_sequences = None,
                ac_kwargs = [(''messages'', JArr [])]\<rparr>"
  obtain c1 where c1: "OpenAIClient_chat_completion ?srv ?c ''one'' ''gpt-4.1-nano'' (17 / 20) False []
      = (Some (Inl (HTTPStatusError 401)), c1, [])"
    by (simp add: OpenAIClient_chat_completion_def OpenAIClient_request_def Let_def
        request_first_attempt_final OpenAIClient_of_simps is_ascii_def OpenAISettings_defaults_def
        retriable_status_def)
  have c1': "oa_max_retries c1 = 5" "\<not> is_closed (oa_client c1)"
    using OpenAIClient_chat_completion_sent[OF c1]
    by (auto simp: OpenAIClient_of_simps is_ascii_def OpenAISettings_defaults_def)
  obtain c2 where c2: "OpenAIClient_call ?srv c1 ?x = (Some (Inl (HTTPStatusError 401)), c2, [])"
    and n2: "map (\<lambda>req. payload_field req ''messages'') (new_requests (oa_client c1) (oa_client c2))
       = [Some (JArr [])]"
    using c1'
    by (simp add: OpenAIClient_call_def OpenAIClient_chat_completion_def OpenAIClient_request_def
        Let_def request_first_attempt_final retriable_status_def new_requests_append
        payload_field_def)
  obtain a1 where a1: "AnthropicClient_chat_completion ?srv ?a ''one'' ''claude-sonnet-4-5-20250929''
      (Some 4096) None None [] = (Some (Inl (HTTPStatusError 401)), a1, [])"
    by (simp add: AnthropicClient_chat_completion_def AnthropicClient_request_def Let_def
        request_first_attempt_final AnthropicClient_of_simps is_ascii_def
        AnthropicSettings_defaults_def retriable_status_def)
  have a1': "an_max_retries a1 = 5" "\<not> is_closed (an_client a1)"
    using AnthropicClient_chat_completion_sent[OF a1]
    by (auto simp: AnthropicClient_of_simps is_ascii_def AnthropicSettings_defaults_def)
  obtain a2 where a2: "AnthropicClient_call ?srv a1 ?y = (Some (Inl (HTTPStatusError 401)), a2, [])"
    and m2: "map (\<lambda>req. payload_field req ''messages'') (new_requests (an_client a1) (an_client a2))
       = [Some (JArr [])]"
    using a1'
    by (simp add: AnthropicClient_call_def AnthropicClient_chat_completion_def
        AnthropicClient_request_def Let_def request_first_attempt_final retriable_status_def
        new_requests_append payload_field_def)
  show ?thesis
    by (simp add: c1 c2 n2 a1 a2 m2 Let_def)
qed

section \<open>Where the system prompt goes\<close>

lemma AnthropicClient_init_fresh:
  assumes "AnthropicClient_init lib env defaults system_prompt settings = Inr c"
  shows "an_messages c = []" and "\<not> is_closed (an_client c)"
    and "an_system_prompt c = (if system_prompt = [] then default_system_prompt else system_prompt)"
  using assms
  by (auto simp: AnthropicClient_init_def AsyncClient_def split: sum.splits option.splits)

text \<open>
  Claim C7, as amended. An \<open>AnthropicClient\<close> as its constructor builds it, any sequence of
  \<^verbatim>\<open>chat_completion\<close> calls on it, and one more call that passes no \<^verbatim>\<open>messages\<close> and no
  \<^verbatim>\<open>system\<close> keyword of its own. The history after the call is exactly the user turns of
  the calls, in order: every entry has the role \<^verbatim>\<open>user\<close>, none the role \<^verbatim>\<open>system\<close>, and its
  content is the query of its call. Every request of the call has the client's system
  prompt as the \<^verbatim>\<open>system\<close> field of its payload and that history as \<^verbatim>\<open>messages\<close>; and the
  call does send a request when the retry budget is not negative.
\<close>

theorem system_prompt_placement:
  assumes "AnthropicClient_init lib env defaults system_prompt settings = Inr c"
    and "''messages'' \<notin> fst ` set (ac_kwargs x)" and "''system'' \<notin> fst ` set (ac_kwargs x)"
  shows "an_messages (fst (snd (AnthropicClient_call srv (AnthropicClient_calls srv c xs) x))) =
           map (\<lambda>y. JObj [(''role'', JStr ''user''), (''content'', JStr (ac_query y))]) (xs @ [x])
    \<and> (\<forall>m \<in> set (an_messages (fst (snd (AnthropicClient_call srv (AnthropicClient_calls srv c xs) x)))).
          getitem_str m ''role'' = Inr (JStr ''user''))
    \<and> (\<forall>req \<in> set (new_requests (an_client (AnthropicClient_calls srv c xs))
                       (an_client (fst (snd (AnthropicClient_call srv (AnthropicClient_calls srv c xs) x))))).
          payload_field req ''system'' = Some (JStr (an_system_prompt c))
          \<and> payload_field req ''messages'' =
              Some (JArr (map (\<lambda>y. JObj [(''role'', JStr ''user''), (''content'', JStr (ac_query y))]) (xs @ [x]))))
    \<and> an_system_prompt c = (if system_prompt = [] then default_system_prompt else system_prompt)
    \<and> (0 \<le> an_max_retries c \<longrightarrow>
          new_requests (an_client (AnthropicClient_calls srv c xs))
            (an_client (fst (snd (AnthropicClient_call srv (AnthropicClient_calls srv c xs) x)))) \<noteq> [])"
proof -
  let ?c2 = "AnthropicClient_calls srv c xs"
  note fresh = AnthropicClient_init_fresh[OF assms(1)]
  have c2: "an_messages ?c2 = map (\<lambda>y. JObj [(''role'', JStr ''user''), (''content'', JStr (ac_query y))]) xs"
    "an_system_prompt ?c2 = an_system_prompt c" "an_max_retries ?c2 = an_max_retries c"
    "\<not> is_closed (an_client ?c2)"
    using AnthropicClient_calls_messages[of srv c xs] fresh by simp_all
  obtain r3 c3 d3 where c3: "AnthropicClient_call srv ?c2 x = (r3, c3, d3)"
    using prod_cases3 by blast
  from AnthropicClient_chat_completion_sent[OF c3[unfolded AnthropicClient_call_def]]
  obtain k payload where
    h3: "an_messages c3 = an_messages ?c2 @ [JObj [(''role'', JStr ''user''), (''content'', JStr (ac_query x))]]"
    and n3: "new_requests (an_client ?c2) (an_client c3) = replicate k
              \<lparr>req_method = ''POST'', req_path = base_url (an_settings ?c2) @ ''messages'',
               req_json = Some payload, req_params = None\<rparr>"
    and pm: "''messages'' \<notin> fst ` set (ac_kwargs x) \<longrightarrow>
            map_of payload ''messages'' = Some (JArr (an_messages ?c2 @ [JObj [(''role'', JStr ''user''), (''content'', JStr (ac_query x))]]))"
    and ps: "''system'' \<notin> fst ` set (ac_kwargs x) \<longrightarrow>
            map_of payload ''system'' = Some (JStr (an_system_prompt ?c2))"
    and k: "\<not> is_closed (an_client ?c2) \<and> 0 \<le> an_max_retries ?c2 \<longrightarrow> 0 < k"
    by blast
  have m3: "an_messages c3 = map (\<lambda>y. JObj [(''role'', JStr ''user''), (''content'', JStr (ac_query y))]) (xs @ [x])"
    using h3 c2(1) by simp
  have roles: "\<forall>m \<in> set (an_messages c3). getitem_str m ''role'' = Inr (JStr ''user'')"
    unfolding m3 by auto
  have reqs: "\<forall>req \<in> set (new_requests (an_client ?c2) (an_client c3)).
          payload_field req ''system'' = Some (JStr (an_system_prompt c))
          \<and> payload_field req ''messages'' =
              Some (JArr (map (\<lambda>y. JObj [(''role'', JStr ''user''), (''content'', JStr (ac_query y))]) (xs @ [x])))"
    using n3 pm ps assms(2,3) c2(1,2) by (simp add: payload_field_def)
  have some: "0 \<le> an_max_retries c \<longrightarrow> new_requests (an_client ?c2) (an_client c3) \<noteq> []"
    using n3 k c2(3,4) by auto
  show ?thesis
    using m3 roles reqs some fresh(3) by (simp add: c3)
qed

text \<open>
  Claim C7 as stated also has no entry of \<^verbatim>\<open>messages\<close> with a content equal to the system
  prompt. The content of an entry is whatever the caller asks: a client with the system
  prompt \<^verbatim>\<open>Be brief.\<close> that is asked \<^verbatim>\<open>Be brief.\<close> sends that text as the content of its
  one message.
\<close>

theorem system_prompt_placement_counterexample:
  "(let c = AnthropicClient_of ''Be brief.'' (AnthropicSettings_defaults\<lparr>api_key := ''sk-test''\<rparr>);
        c1 = fst (snd (AnthropicClient_chat_completion (\<lambda>log. Inr (JObj [(''id'', JStr ''r'')])) c
               ''Be brief.'' ''claude-sonnet-4-5-20250929'' (Some 4096) None None []))
    in map (\<lambda>req. payload_field req ''messages'') (sent (an_client c1)) =
         [Some (JArr [JObj [(''role'', JStr ''user''), (''content'', JStr (an_system_prompt c))]])]
       \<and> getitem_str (JObj [(''role'', JStr ''user''), (''content'', JStr (an_system_prompt c))]) ''content'' =
           Inr (JStr (an_system_prompt c)))"
  by (simp add: Let_def AnthropicClient_chat_completion_def AnthropicClient_request_def
      request_first_attempt_final AnthropicClient_of_simps is_ascii_def
      AnthropicSettings_defaults_def payload_field_def)

theorem system_prompt_placement_witness:
  "(let srv = (\<lambda>log. Inr (JObj [(''id'', JStr ''r'')]));
        c = AnthropicClient_of ''Be brief.'' (AnthropicSettings_defaults\<lparr>api_key := ''sk-test''\<rparr>);
        y1 = \<lparr>ac_query = ''one'', ac_model = ''claude-sonnet-4-5-20250929'',
                ac_max_tokens = Some 4096, ac_temperature = None, ac_stop_sequences = None,
                ac_kwargs = []\<rparr>;
        y2 = \<lparr>ac_query = ''two'', ac_model = ''claude-sonnet-4-5-20250929'',
                ac_max_tokens = Some 4096, ac_temperature = None, ac_stop_sequences = None,
                ac_kwargs = []\<rparr>;
        c1 = AnthropicClient_calls srv c [y1];
        c2 = fst (snd (AnthropicClient_call srv c1 y2))
    in an_messages c2 = [JObj [(''role'', JStr ''user''), (''content'', JStr ''one'')],
                    JObj [(''role'', JStr ''user''), (''content'', JStr ''two'')]]
       \<and> map (\<lambda>req. payload_field req ''system'') (new_requests (an_client c1) (an_client c2)) =
           [Some (JStr ''Be brief.'')]
       \<and> map (\<lambda>req. payload_field req ''messages'') (new_requests (an_client c1) (an_client c2)) =
           [Some (JArr [JObj [(''role'', JStr ''user''), (''content'', JStr ''one'')],
                    JObj [(''role'', JStr ''user''), (''content'', JStr ''two'')]])])"
proof -
  let ?srv = "(\<lambda>log. Inr (JObj [(''id'', JStr ''r'')])) :: server"
  let ?s = "AnthropicSettings_defaults\<lparr>api_key := ''sk-test''\<rparr>"
  let ?c = "AnthropicClient_of ''Be brief.'' ?s"
  let ?y1 = "\<lparr>ac_query = ''one'', ac_model = ''claude-sonnet-4-5-20250929'',
                ac_max_tokens = Some 4096, ac_temperature = None, ac_stop_sequences = None,
                ac_kwargs = []\<rparr>"
  let ?y2 = "\<lparr>ac_query = ''two'', ac_model = ''claude-sonnet-4-5-20250929'',
                ac_max_tokens = Some 4096, ac_temperature = None, ac_stop_sequences = None,
                ac_kwargs = []\<rparr>"
  have init: "AnthropicClient_init header_check Map.empty AnthropicSettings_defaults ''Be brief.''
      (Some ?s) = Inr ?c"
    by (rule AnthropicClient_of_init)
       (simp_all add: is_ascii_sk_test is_ascii_version AnthropicSettings_defaults_def)
  have kw: "''messages'' \<notin> fst ` set (ac_kwargs ?y2)" "''system'' \<notin> fst ` set (ac_kwargs ?y2)"
    by simp_all
  note inst = system_prompt_placement [OF init kw, where srv = ?srv and xs = "[?y1]"]
  let ?c1 = "AnthropicClient_calls ?srv ?c [?y1]"
  let ?c2 = "fst (snd (AnthropicClient_call ?srv ?c1 ?y2))"
  have mx: "0 \<le> an_max_retries ?c"
    by (simp add: AnthropicClient_of_simps is_ascii_def AnthropicSettings_defaults_def)
  from inst mx have ne: "new_requests (an_client ?c1) (an_client ?c2) \<noteq> []" by blast
  obtain r3 c3 d3 where c3: "AnthropicClient_call ?srv ?c1 ?y2 = (r3, c3, d3)"
    using prod_cases3 by blast
  have cl: "\<not> is_closed (an_client ?c1)" "an_max_retries ?c1 = 5"
    using AnthropicClient_calls_messages[of ?srv ?c "[?y1]"]
    by (simp_all add: AnthropicClient_of_simps is_ascii_def AnthropicSettings_defaults_def)
  have one: "new_requests (an_client ?c1) (an_client ?c2) =
      [\<lparr>req_method = ''POST'', req_path = base_url (an_settings ?c1) @ ''messages'',
        req_json = Some (dict_set ''max_tokens'' (JInt 4096)
           [(''model'', JStr ''claude-sonnet-4-5-20250929''),
            (''system'', JStr (an_system_prompt ?c1)),
            (''messages'', JArr (an_messages ?c1 @ [JObj [(''role'', JStr ''user''), (''content'', JStr ''two'')]]))]),
        req_params = None\<rparr>]"
    using cl
    by (simp add: AnthropicClient_call_def AnthropicClient_chat_completion_def
        AnthropicClient_request_def Let_def request_first_attempt_final new_requests_append
        del: AnthropicClient_calls.simps)
  have sys: "an_system_prompt ?c = ''Be brief.''"
    by (simp add: AnthropicClient_of_simps is_ascii_def AnthropicSettings_defaults_def)
  show ?thesis
    using inst unfolding Let_def one
    by (simp add: sys payload_field_def del: AnthropicClient_calls.simps)
qed

end
